theory Spec2Isabelle
  imports Complex_Main
begin

section \<open>Values, errors and collaborators\<close>

text \<open>
  The orchestrator of \<^verbatim>\<open>pypeit/calibrations.py\<close> (class \<^verbatim>\<open>Calibrations\<close>) is embedded
  as state-passing functions. Every exception the Python can raise is a value of
  \<open>error\<close>; \<^verbatim>\<open>msgs.error\<close> raises \<open>PypeItError\<close> with its message, an exception coming
  out of a collaborator is whatever error the collaborator's oracle returns.
\<close>

datatype error =
    PypeItError string
  | AttributeError string
  | KeyError string
  | TypeError string
  | ValueError string
  | IndexError string
  | FileNotFoundError string

datatype msg = Info string | Warn string

text \<open>
  Artifacts are the objects the getters hand around. \<open>PyNone\<close> is Python's
  \<^verbatim>\<open>None\<close>, \<open>EmptyDict\<close> the placeholder \<^verbatim>\<open>{}\<close> that \<^verbatim>\<open>_cached\<close> inserts, \<open>Obj n\<close> an
  object of a collaborator that the orchestrator only passes on (identified by \<open>n\<close>),
  \<open>NDArray\<close> a two-dimensional numeric array, \<open>BoolArray\<close> a one-dimensional boolean
  array, \<open>TiltsDict a\<close> a dictionary whose entry \<^verbatim>\<open>'tilts'\<close> is the array \<open>a\<close>, and
  \<open>SlitTraceSet r\<close> a reference to a slit-trace object living in the heap of the state
  (its \<^verbatim>\<open>mask\<close> is updated in place by several getters). The model never copies an
  artifact, so equality of two artifact values stands for identity of the objects.
  Array elements are Python floats; they are modelled as reals, rounding is not
  modelled.
\<close>

datatype artifact =
    PyNone
  | EmptyDict
  | Obj nat
  | NDArray "real list list"
  | BoolArray "bool list"
  | TiltsDict "real list list"
  | SlitTraceSet nat

record slitobj =
  nslits :: nat
  mask :: "bool list"

text \<open>
  A Python string object: \<open>interned\<close> tells whether the object is the interpreter's
  interned string of these characters, which is what the identity test
  \<^verbatim>\<open>x is 'skip'\<close> against a literal of the source compares.
\<close>

record pystr =
  chars :: string
  interned :: bool

text \<open>
  The parameter set \<^verbatim>\<open>self.par\<close>: the entries the orchestrator itself reads. The
  parameter subsets that are only handed to a builder are named by their key.
\<close>

record par =
  par_id :: nat
  bpm_usebias :: bool
  flatfield_method :: pystr
  flatfield_frame :: string
  flatfield_illumflatten :: bool
  flatfield_tweak_slits :: bool
  wavelengths_reference :: string

datatype collab =
    ArcImage | TiltImage | BiasFrame | FlatField | EdgeTraceSet | TraceImage
  | WaveImage | WaveCalib | WaveTilts | SlitTraceSetClass | Spectrograph
  | OsPath | Fits | Parse

datatype op =
    Construct | Load | BuildImage | Save | Exists | AutoTrace | ShowOp | GetSlits
  | ToMaster | FromMaster | Bpm | Run | BuildWave | MakeMaskslits | GetMetaValue
  | IsFile | IsDir | MakeDirs | OpenData | ParseBinning

datatype arg =
    AArt artifact
  | AStr string
  | AStrs "string list"
  | AOptStr "string option"
  | AOptNat "nat option"
  | ANat nat
  | ABool bool
  | ABools "bool list"
  | APar par string

text \<open>
  The collaborators. The frame index \<^verbatim>\<open>self.fitstbl\<close> is read-only metadata and is a
  set of pure functions. Every other collaborator (the per-product builders, the
  spectrograph, the file system) is an oracle over an external world \<open>'e\<close>: given
  the collaborator, the operation, the arguments the orchestrator passes and the
  current world, it returns a result or an exception, and the next world. The oracles
  are grouped by the Python type of the result.
\<close>

record 'e world =
  fitstbl_calib :: "nat \<Rightarrow> string"
  fitstbl_find_frames :: "string \<Rightarrow> int option \<Rightarrow> nat list"
  fitstbl_frame_paths :: "nat list \<Rightarrow> string list"
  fitstbl_frame_path :: "nat option \<Rightarrow> string"
  fitstbl_master_key :: "nat option \<Rightarrow> nat option \<Rightarrow> string"
  ext_art :: "collab \<Rightarrow> op \<Rightarrow> arg list \<Rightarrow> 'e \<Rightarrow> (error + artifact) \<times> 'e"
  ext_bool :: "collab \<Rightarrow> op \<Rightarrow> arg list \<Rightarrow> 'e \<Rightarrow> (error + bool) \<times> 'e"
  ext_pair :: "collab \<Rightarrow> op \<Rightarrow> arg list \<Rightarrow> 'e \<Rightarrow> (error + artifact \<times> artifact) \<times> 'e"
  ext_triple :: "collab \<Rightarrow> op \<Rightarrow> arg list \<Rightarrow> 'e
                   \<Rightarrow> (error + artifact \<times> artifact \<times> artifact) \<times> 'e"
  ext_slits :: "collab \<Rightarrow> op \<Rightarrow> arg list \<Rightarrow> 'e \<Rightarrow> (error + slitobj option) \<times> 'e"

section \<open>The state of a Calibrations object\<close>

text \<open>
  One field per attribute that the class assigns and reads back. \<open>calls\<close> is the log
  of calls made to collaborators (with whether the call returned normally),
  \<open>messages\<close> the log of \<^verbatim>\<open>msgs.info\<close> and \<^verbatim>\<open>msgs.warn\<close>, \<open>heap\<close> holds the slit-trace
  objects. The attributes \<^verbatim>\<open>wv_calib\<close> and \<^verbatim>\<open>mstilt\<close> are not created by
  \<^verbatim>\<open>__init__\<close> or \<^verbatim>\<open>_reset_internals\<close>: \<open>None\<close> means that the attribute does not exist
  yet, \<open>Some PyNone\<close> that it is \<^verbatim>\<open>None\<close>. The attribute \<^verbatim>\<open>maskslits\<close> is read by
  \<^verbatim>\<open>get_wv_calib\<close> and \<^verbatim>\<open>get_tilts\<close> but assigned nowhere in the class, so it has no
  field: reading it raises \<open>AttributeError\<close>.
\<close>

record 'e state =
  ext :: 'e
  calls :: "(collab \<times> op \<times> bool) list"
  messages :: "msg list"
  heap :: "nat \<rightharpoonup> slitobj"
  next_ref :: nat
  par :: par
  reuse_masters :: bool
  master_dir :: "string option"
  save_masters :: bool
  qa_path :: "string option"
  write_qa :: bool
  show_plots :: bool
  steps :: "string list"
  calib_dict :: "string \<rightharpoonup> (string \<rightharpoonup> artifact)"
  det :: "nat option"
  frame :: "nat option"
  shape :: "nat list option"
  msarc :: artifact
  msbias :: artifact
  msbpm :: artifact
  slits :: artifact
  wavecalib :: artifact
  tilts_dict :: artifact
  mspixelflat :: artifact
  msillumflat :: artifact
  mswave :: artifact
  calib_ID :: "int option"
  master_key_dict :: "string \<rightharpoonup> string"
  wv_calib :: "artifact option"
  mstilt :: "artifact option"

type_synonym ('a, 'e) M = "'e state \<Rightarrow> (error + 'a) \<times> 'e state"

definition returnM :: "'a \<Rightarrow> ('a, 'e) M" where
  "returnM x = (\<lambda>s. (Inr x, s))"

definition raiseM :: "error \<Rightarrow> ('a, 'e) M" where
  "raiseM e = (\<lambda>s. (Inl e, s))"

definition bindM :: "('a, 'e) M \<Rightarrow> ('a \<Rightarrow> ('b, 'e) M) \<Rightarrow> ('b, 'e) M" where
  "bindM m f = (\<lambda>s. case m s of (Inl e, s') \<Rightarrow> (Inl e, s') | (Inr x, s') \<Rightarrow> f x s')"

definition thenM :: "('a, 'e) M \<Rightarrow> ('b, 'e) M \<Rightarrow> ('b, 'e) M" where
  "thenM m k = bindM m (\<lambda>_. k)"

definition getS :: "('e state, 'e) M" where
  "getS = (\<lambda>s. (Inr s, s))"

definition modifyS :: "('e state \<Rightarrow> 'e state) \<Rightarrow> (unit, 'e) M" where
  "modifyS f = (\<lambda>s. (Inr (), f s))"

definition liftE :: "error + 'a \<Rightarrow> ('a, 'e) M" where
  "liftE r = (\<lambda>s. (r, s))"

text \<open>
  Modelled from the spec: the module \<^verbatim>\<open>pypeit.msgs\<close> is not among the sources. The spec
  calls every \<^verbatim>\<open>msgs.error\<close> a fatal error that aborts the getter, and says that
  warnings never raise; \<^verbatim>\<open>msgs.info\<close> and \<^verbatim>\<open>msgs.warn\<close> append to the message log.
\<close>

definition msgs_error :: "string \<Rightarrow> ('a, 'e) M" where
  "msgs_error m = raiseM (PypeItError m)"

definition msgs_warn :: "string \<Rightarrow> (unit, 'e) M" where
  "msgs_warn m = modifyS (\<lambda>s. s\<lparr>messages := messages s @ [Warn m]\<rparr>)"

definition msgs_info :: "string \<Rightarrow> (unit, 'e) M" where
  "msgs_info m = modifyS (\<lambda>s. s\<lparr>messages := messages s @ [Info m]\<rparr>)"

fun is_ok :: "error + 'a \<Rightarrow> bool" where
  "is_ok (Inr _) = True"
| "is_ok (Inl _) = False"

text \<open>A call to a collaborator: the oracle runs on the world, the call is logged.\<close>

definition call_art :: "'e world \<Rightarrow> collab \<Rightarrow> op \<Rightarrow> arg list \<Rightarrow> (artifact, 'e) M" where
  "call_art w k f args = (\<lambda>s. case ext_art w k f args (ext s) of
      (r, e') \<Rightarrow> (r, s\<lparr>ext := e', calls := calls s @ [(k, f, is_ok r)]\<rparr>))"

definition call_bool :: "'e world \<Rightarrow> collab \<Rightarrow> op \<Rightarrow> arg list \<Rightarrow> (bool, 'e) M" where
  "call_bool w k f args = (\<lambda>s. case ext_bool w k f args (ext s) of
      (r, e') \<Rightarrow> (r, s\<lparr>ext := e', calls := calls s @ [(k, f, is_ok r)]\<rparr>))"

definition call_pair :: "'e world \<Rightarrow> collab \<Rightarrow> op \<Rightarrow> arg list \<Rightarrow> (artifact \<times> artifact, 'e) M"
  where
  "call_pair w k f args = (\<lambda>s. case ext_pair w k f args (ext s) of
      (r, e') \<Rightarrow> (r, s\<lparr>ext := e', calls := calls s @ [(k, f, is_ok r)]\<rparr>))"

definition call_triple ::
  "'e world \<Rightarrow> collab \<Rightarrow> op \<Rightarrow> arg list \<Rightarrow> (artifact \<times> artifact \<times> artifact, 'e) M" where
  "call_triple w k f args = (\<lambda>s. case ext_triple w k f args (ext s) of
      (r, e') \<Rightarrow> (r, s\<lparr>ext := e', calls := calls s @ [(k, f, is_ok r)]\<rparr>))"

text \<open>
  A call that creates a slit-trace object (or returns \<^verbatim>\<open>None\<close>): the new object is
  put into the heap under a fresh reference.
\<close>

definition call_slits :: "'e world \<Rightarrow> collab \<Rightarrow> op \<Rightarrow> arg list \<Rightarrow> (artifact, 'e) M" where
  "call_slits w k f args = (\<lambda>s. case ext_slits w k f args (ext s) of
      (Inl e, e') \<Rightarrow> (Inl e, s\<lparr>ext := e', calls := calls s @ [(k, f, False)]\<rparr>)
    | (Inr None, e') \<Rightarrow> (Inr PyNone, s\<lparr>ext := e', calls := calls s @ [(k, f, True)]\<rparr>)
    | (Inr (Some obj), e') \<Rightarrow>
        (Inr (SlitTraceSet (next_ref s)),
         s\<lparr>ext := e', calls := calls s @ [(k, f, True)],
           heap := (heap s)(next_ref s \<mapsto> obj), next_ref := Suc (next_ref s)\<rparr>))"

section \<open>The calibration cache\<close>

text \<open>\<^verbatim>\<open>_cached(master_type, master_key)\<close>, lines 204--237.\<close>

definition cached :: "string \<Rightarrow> string \<Rightarrow> (bool, 'e) M" where
  "cached master_type master_key = (\<lambda>s.
     case calib_dict s master_key of
       None \<Rightarrow> (Inr False, s\<lparr>calib_dict := (calib_dict s)(master_key \<mapsto> Map.empty)\<rparr>)
     | Some entry \<Rightarrow>
        (case entry master_type of
           Some _ \<Rightarrow>
             (Inr True,
              s\<lparr>messages := messages s @
                  [Info (''Using '' @ master_type @ '' for '' @ master_key @ '' found in cache.'')]\<rparr>)
         | None \<Rightarrow>
             (Inr False,
              s\<lparr>calib_dict := (calib_dict s)(master_key \<mapsto> entry(master_type \<mapsto> EmptyDict))\<rparr>)))"

text \<open>
  \<^verbatim>\<open>_update_cache(master_key, master_type, data)\<close>, lines 174--202. \<open>master_type\<close> and
  \<open>data\<close> are each a single value or a tuple; the loop runs over the zip of the two
  and evaluates \<^verbatim>\<open>self.calib_dict[self.master_key_dict[master_key]][key] = d\<close> once per
  pair, raising \<open>KeyError\<close> where a dictionary lacks the key.
\<close>

datatype 'a one_or_tuple = One 'a | Tuple "'a list"

fun as_tuple :: "'a one_or_tuple \<Rightarrow> 'a list" where
  "as_tuple (One x) = [x]"
| "as_tuple (Tuple xs) = xs"

fun store_all :: "string \<Rightarrow> (string \<times> artifact) list \<Rightarrow> 'e state \<Rightarrow> (error + unit) \<times> 'e state"
  where
  "store_all master_key [] s = (Inr (), s)"
| "store_all master_key ((key, d) # rest) s =
    (case master_key_dict s master_key of
       None \<Rightarrow> (Inl (KeyError master_key), s)
     | Some k \<Rightarrow>
        (case calib_dict s k of
           None \<Rightarrow> (Inl (KeyError k), s)
         | Some entry \<Rightarrow>
             store_all master_key rest (s\<lparr>calib_dict := (calib_dict s)(k \<mapsto> entry(key \<mapsto> d))\<rparr>)))"

definition update_cache ::
  "string \<Rightarrow> string one_or_tuple \<Rightarrow> artifact one_or_tuple \<Rightarrow> (unit, 'e) M" where
  "update_cache master_key master_type data =
     store_all master_key (zip (as_tuple master_type) (as_tuple data))"

text \<open>The read \<^verbatim>\<open>self.calib_dict[key][master_type]\<close>.\<close>

definition cache_get :: "string \<Rightarrow> string \<Rightarrow> (artifact, 'e) M" where
  "cache_get key master_type = (\<lambda>s.
     case calib_dict s key of
       None \<Rightarrow> (Inl (KeyError key), s)
     | Some entry \<Rightarrow>
        (case entry master_type of
           None \<Rightarrow> (Inl (KeyError master_type), s)
         | Some a \<Rightarrow> (Inr a, s)))"

text \<open>The read \<^verbatim>\<open>self.master_key_dict[name]\<close>.\<close>

definition key_of :: "string \<Rightarrow> (string, 'e) M" where
  "key_of name = (\<lambda>s.
     case master_key_dict s name of
       None \<Rightarrow> (Inl (KeyError name), s)
     | Some k \<Rightarrow> (Inr k, s))"

section \<open>Strings and numbers of the Python runtime\<close>

text \<open>Decimal rendering of integers, as \<^verbatim>\<open>str.format\<close> does for \<^verbatim>\<open>{0}\<close>.\<close>

definition digit_char :: "nat \<Rightarrow> char" where
  "digit_char n = ''0123456789'' ! (n mod 10)"

function str_of_nat :: "nat \<Rightarrow> string" where
  "str_of_nat n = (if n < 10 then [digit_char n] else str_of_nat (n div 10) @ [digit_char n])"
  by pat_completeness auto
termination
  by (relation "measure id") auto

definition str_of_int :: "int \<Rightarrow> string" where
  "str_of_int i = (if i < 0 then CHR ''-'' # str_of_nat (nat (- i)) else str_of_nat (nat i))"

text \<open>
  Strings are lists of characters with code points below 256.

  \<^verbatim>\<open>repr(text)\<close>: the text between single quotes, or between double quotes when it
  holds a single quote and no double quote; the quote and the backslash are escaped,
  tab, newline and carriage return are written as a backslash and \<open>t\<close>, \<open>n\<close> or \<open>r\<close>, and
  every other character that is not printable as a backslash, \<open>x\<close> and its two
  hexadecimal digits.
\<close>

definition hex_char :: "nat \<Rightarrow> char" where
  "hex_char n = ''0123456789abcdef'' ! (n mod 16)"

definition printable :: "char \<Rightarrow> bool" where
  "printable c =
    (let n = (of_char c :: nat)
     in (32 \<le> n \<and> n < 127) \<or> (161 \<le> n \<and> n \<noteq> 173))"

definition repr_char :: "char \<Rightarrow> char \<Rightarrow> string" where
  "repr_char q c =
    (if c = q \<or> c = CHR 0x5C then [CHR 0x5C, c]
     else if c = CHR 0x09 then [CHR 0x5C, CHR ''t'']
     else if c = CHR 0x0A then [CHR 0x5C, CHR ''n'']
     else if c = CHR 0x0D then [CHR 0x5C, CHR ''r'']
     else if printable c then [c]
     else [CHR 0x5C, CHR ''x'', hex_char (of_char c div 16), hex_char (of_char c)])"

definition py_repr :: "string \<Rightarrow> string" where
  "py_repr text =
    (let q = (if CHR 0x27 \<in> set text \<and> CHR 0x22 \<notin> set text then CHR 0x22 else CHR 0x27)
     in [q] @ concat (map (repr_char q) text) @ [q])"

text \<open>
  \<^verbatim>\<open>int(text)\<close>: the whitespace around the number is stripped (space, tab, newline,
  vertical tab, form feed, carriage return, and the next-line and no-break-space
  characters, which \<^verbatim>\<open>int\<close> turns into spaces first; the separators 0x1C to 0x1F are
  not stripped), a sign may precede the digits, single underscores may separate
  digits; anything else raises \<open>ValueError\<close>, whose message shows the first 200
  characters of \<^verbatim>\<open>repr(text)\<close>.
\<close>

definition is_space :: "char \<Rightarrow> bool" where
  "is_space c = (c \<in> set [CHR '' '', CHR 0x09, CHR 0x0A, CHR 0x0B, CHR 0x0C, CHR 0x0D,
                            CHR 0x85, CHR 0xA0])"

definition digit_val :: "char \<Rightarrow> nat option" where
  "digit_val c = (if c \<in> set ''0123456789'' then Some (of_char c - 48) else None)"

fun digits_val :: "nat \<Rightarrow> string \<Rightarrow> nat option" where
  "digits_val acc [] = Some acc"
| "digits_val acc (c # cs) =
    (case digit_val c of
       Some d \<Rightarrow> digits_val (10 * acc + d) cs
     | None \<Rightarrow>
        (if c = CHR ''_'' then
           (case cs of
              [] \<Rightarrow> None
            | c' # _ \<Rightarrow> (if digit_val c' = None then None else digits_val acc cs))
         else None))"

definition unsigned_val :: "string \<Rightarrow> nat option" where
  "unsigned_val t =
    (case t of
       [] \<Rightarrow> None
     | c # _ \<Rightarrow> (if digit_val c = None then None else digits_val 0 t))"

definition py_strip :: "string \<Rightarrow> string" where
  "py_strip t = rev (dropWhile is_space (rev (dropWhile is_space t)))"

definition py_int :: "string \<Rightarrow> error + int" where
  "py_int text =
    (let t = py_strip text;
         bad = Inl (ValueError (''invalid literal for int() with base 10: ''
                                 @ take 200 (py_repr text)))
     in case t of
          [] \<Rightarrow> bad
        | c # cs \<Rightarrow>
           (if c = CHR ''-'' then
              (case unsigned_val cs of None \<Rightarrow> bad | Some n \<Rightarrow> Inr (- int n))
            else if c = CHR ''+'' then
              (case unsigned_val cs of None \<Rightarrow> bad | Some n \<Rightarrow> Inr (int n))
            else
              (case unsigned_val t of None \<Rightarrow> bad | Some n \<Rightarrow> Inr (int n))))"

text \<open>\<^verbatim>\<open>text.split(',')[0]\<close> and \<^verbatim>\<open>',' in text\<close>.\<close>

definition first_field :: "string \<Rightarrow> string" where
  "first_field text = takeWhile (\<lambda>c. c \<noteq> CHR '','') text"

definition has_comma :: "string \<Rightarrow> bool" where
  "has_comma text = (CHR '','' \<in> set text)"

text \<open>\<^verbatim>\<open>os.path.join(a, b)\<close> on a POSIX system.\<close>

definition os_path_join :: "string \<Rightarrow> string \<Rightarrow> string" where
  "os_path_join a b =
    (if b \<noteq> [] \<and> hd b = CHR ''/'' then b
     else if a = [] \<or> last a = CHR ''/'' then a @ b
     else a @ ''/'' @ b)"

section \<open>Construction, reset and configuration\<close>

text \<open>
  \<^verbatim>\<open>getattr(self, item) is None\<close> for the attribute names that \<^verbatim>\<open>_chk_set\<close> and
  \<^verbatim>\<open>_chk_objs\<close> are called with. \<^verbatim>\<open>par\<close> is a \<^verbatim>\<open>CalibrationsPar\<close> from \<^verbatim>\<open>__init__\<close> on
  and is never \<^verbatim>\<open>None\<close>. An attribute that does not exist raises \<open>AttributeError\<close>.
\<close>

definition attr_is_none :: "string \<Rightarrow> 'e state \<Rightarrow> error + bool" where
  "attr_is_none item s =
    (if item = ''det'' then Inr (det s = None)
     else if item = ''calib_ID'' then Inr (calib_ID s = None)
     else if item = ''par'' then Inr False
     else if item = ''msarc'' then Inr (msarc s = PyNone)
     else if item = ''msbpm'' then Inr (msbpm s = PyNone)
     else if item = ''slits'' then Inr (slits s = PyNone)
     else if item = ''tilts_dict'' then Inr (tilts_dict s = PyNone)
     else if item = ''wv_calib'' then
       (case wv_calib s of None \<Rightarrow> Inl (AttributeError item) | Some a \<Rightarrow> Inr (a = PyNone))
     else if item = ''mstilt'' then
       (case mstilt s of None \<Rightarrow> Inl (AttributeError item) | Some a \<Rightarrow> Inr (a = PyNone))
     else Inl (AttributeError item))"

text \<open>\<^verbatim>\<open>_chk_set(items)\<close>, lines 958--968.\<close>

definition chk_set_error :: "string \<Rightarrow> error" where
  "chk_set_error item =
     PypeItError (''Use self.set to specify '' @ [CHR 0x27] @ item @ [CHR 0x27]
                  @ '' prior to generating XX'')"

fun chk_set :: "string list \<Rightarrow> 'e state \<Rightarrow> (error + unit) \<times> 'e state" where
  "chk_set [] s = (Inr (), s)"
| "chk_set (item # items) s =
    (case attr_is_none item s of
       Inl e \<Rightarrow> (Inl e, s)
     | Inr is_none \<Rightarrow>
         (if is_none then (Inl (chk_set_error item), s) else chk_set items s))"

text \<open>\<^verbatim>\<open>_chk_objs(items)\<close>, lines 971--989.\<close>

definition chk_objs_warnings :: "string \<Rightarrow> msg list" where
  "chk_objs_warnings obj =
     [Warn (''You need to generate '' @ obj @ '' prior to this calibration..''),
      Warn (''Use get_'' @ (if take 2 obj = ''ms'' then drop 2 obj else obj))]"

fun chk_objs :: "string list \<Rightarrow> 'e state \<Rightarrow> (error + bool) \<times> 'e state" where
  "chk_objs [] s = (Inr True, s)"
| "chk_objs (obj # items) s =
    (case attr_is_none obj s of
       Inl e \<Rightarrow> (Inl e, s)
     | Inr is_none \<Rightarrow>
         (if is_none then
            (Inr False, s\<lparr>messages := messages s @ chk_objs_warnings obj\<rparr>)
          else chk_objs items s))"

text \<open>\<^verbatim>\<open>_reset_internals\<close>, lines 155--172.\<close>

definition reset_internals :: "'e state \<Rightarrow> 'e state" where
  "reset_internals s =
     s\<lparr>shape := None, msarc := PyNone, msbias := PyNone, msbpm := PyNone, slits := PyNone,
       wavecalib := PyNone, tilts_dict := PyNone, mspixelflat := PyNone,
       msillumflat := PyNone, mswave := PyNone, calib_ID := None,
       master_key_dict := Map.empty\<rparr>"

text \<open>
  \<^verbatim>\<open>Calibrations.__init__\<close>, lines 92--153. The three \<^verbatim>\<open>isinstance\<close> checks are
  checks of the types of the arguments, which the types of the model fix. The
  object starts from a world \<open>e\<close>, with empty logs and an empty heap.
\<close>

definition blank :: "'e \<Rightarrow> par \<Rightarrow> 'e state" where
  "blank e p =
     \<lparr>ext = e, calls = [], messages = [], heap = Map.empty, next_ref = 0, par = p,
      reuse_masters = False, master_dir = None, save_masters = False, qa_path = None,
      write_qa = False, show_plots = False, steps = [], calib_dict = Map.empty,
      det = None, frame = None, shape = None, msarc = PyNone, msbias = PyNone,
      msbpm = PyNone, slits = PyNone, wavecalib = PyNone, tilts_dict = PyNone,
      mspixelflat = PyNone, msillumflat = PyNone, mswave = PyNone, calib_ID = None,
      master_key_dict = Map.empty, wv_calib = None, mstilt = None\<rparr>"

definition init ::
  "'e world \<Rightarrow> par \<Rightarrow> string option \<Rightarrow> string option \<Rightarrow> bool \<Rightarrow> bool \<Rightarrow> bool \<Rightarrow> 'e
     \<Rightarrow> (error + unit) \<times> 'e state" where
  "init w p caldir qadir save_masters' reuse_masters' show' e =
    (thenM (modifyS (\<lambda>s. s\<lparr>reuse_masters := reuse_masters', master_dir := caldir,
                           save_masters := save_masters', qa_path := qadir,
                           write_qa := (qadir \<noteq> None), show_plots := show'\<rparr>))
    (thenM (\<lambda>s. if master_dir s = None then
                  (thenM (if save_masters s then
                            thenM (msgs_warn (''To save masters, must provide the directory (caldir).  ''
                                              @ ''Masters will not be saved!''))
                                  (modifyS (\<lambda>s. s\<lparr>save_masters := False\<rparr>))
                          else returnM ())
                         (if reuse_masters s then
                            thenM (msgs_warn (''To reuse masters, must provide the directory (caldir).  ''
                                              @ ''Masters will not be reused!''))
                                  (modifyS (\<lambda>s. s\<lparr>reuse_masters := False\<rparr>))
                          else returnM ())) s
                else (Inr (), s))
    (thenM (\<lambda>s. case master_dir s of
                  Some d \<Rightarrow>
                    (if save_masters s then
                       bindM (call_bool w OsPath IsDir [AStr d])
                         (\<lambda>there. if there then returnM ()
                                   else thenM (call_art w OsPath MakeDirs [AStr d]) (returnM ())) s
                     else (Inr (), s))
                | None \<Rightarrow> (Inr (), s))
    (thenM (\<lambda>s. case qa_path s of
                  Some q \<Rightarrow>
                    (if write_qa s then
                       bindM (call_bool w OsPath IsDir [AStr (os_path_join q ''PNGs'')])
                         (\<lambda>there. if there then returnM ()
                                   else thenM (call_art w OsPath MakeDirs
                                                 [AStr (os_path_join q ''PNGs'')]) (returnM ())) s
                     else (Inr (), s))
                | None \<Rightarrow> (Inr (), s))
    (modifyS (\<lambda>s. reset_internals
                     (s\<lparr>calib_dict := Map.empty, det := None, frame := None, steps := []\<rparr>)))))))
    (blank e p)"

text \<open>
  Lines 299--313 of \<^verbatim>\<open>set_config\<close>: the frame, the calibration group, the detector,
  the parameters and the key of the frame are set for this setup.
\<close>

definition configure_frame ::
  "'e world \<Rightarrow> nat \<Rightarrow> nat \<Rightarrow> par option \<Rightarrow> int option \<Rightarrow> (unit, 'e) M" where
  "configure_frame w frame' det' par' calib_id =
    thenM (modifyS (\<lambda>s. s\<lparr>frame := Some frame'\<rparr>))
    (bindM (case calib_id of
              None \<Rightarrow> liftE (py_int (first_field (fitstbl_calib w frame')))
            | Some c \<Rightarrow> returnM c)
      (\<lambda>cid.
    thenM (modifyS (\<lambda>s. s\<lparr>calib_ID := Some cid\<rparr>))
    (thenM (if calib_id = None \<and> has_comma (fitstbl_calib w frame') then
              msgs_warn (''Frame '' @ str_of_nat frame'
                         @ '' is associated with more than  one calibration ''
                         @ ''group.  Using the first one ('' @ str_of_int cid @ '').'')
            else returnM ())
    (thenM (modifyS (\<lambda>s. s\<lparr>det := Some det'\<rparr>))
    (thenM (case par' of None \<Rightarrow> returnM () | Some p \<Rightarrow> modifyS (\<lambda>s. s\<lparr>par := p\<rparr>))
    (modifyS (\<lambda>s. s\<lparr>master_key_dict :=
                       (master_key_dict s)(''frame'' \<mapsto>
                          fitstbl_master_key w (Some frame') (Some det'))\<rparr>)))))))"

text \<open>
  Lines 289--297 of \<^verbatim>\<open>set_config\<close>: the internals are reset, and the cache is emptied
  when \<open>rm_cache\<close> is set.
\<close>

definition reset_for_config :: "bool \<Rightarrow> (unit, 'e) M" where
  "reset_for_config rm_cache =
    thenM (modifyS reset_internals)
          (if rm_cache then
             thenM (msgs_warn ''Emptying calibration cache!'')
                   (modifyS (\<lambda>s. s\<lparr>calib_dict := Map.empty\<rparr>))
           else returnM ())"

text \<open>
  The argument \<^verbatim>\<open>frame\<close> of \<^verbatim>\<open>set_config\<close>: a single integer, or an object with a
  length (a list or an array of frames), which line 286 refuses.
\<close>

datatype frame_arg = Single nat | Sequence "nat list"

text \<open>
  \<^verbatim>\<open>set_config(frame, det, par=None, calib_id=None, rm_cache=False)\<close>, lines 239--313.
\<close>

definition set_config ::
  "'e world \<Rightarrow> frame_arg \<Rightarrow> nat \<Rightarrow> par option \<Rightarrow> int option \<Rightarrow> bool \<Rightarrow> (unit, 'e) M" where
  "set_config w frame' det' par' calib_id rm_cache =
    (case frame' of
       Sequence _ \<Rightarrow> msgs_error ''Must provide a single integer for frame.''
     | Single f \<Rightarrow>
         thenM (reset_for_config rm_cache) (configure_frame w f det' par' calib_id))"

section \<open>The getters\<close>

text \<open>
  The representative frame of a role: the first frame found, or the frame being
  calibrated (\<^verbatim>\<open>rows[0] if len(rows) > 0 else self.frame\<close>).
\<close>

definition representative :: "nat list \<Rightarrow> 'e state \<Rightarrow> nat option" where
  "representative rows s = (case rows of [] \<Rightarrow> frame s | r # _ \<Rightarrow> Some r)"

definition set_key :: "string \<Rightarrow> string \<Rightarrow> (unit, 'e) M" where
  "set_key name k = modifyS (\<lambda>s. s\<lparr>master_key_dict := (master_key_dict s)(name \<mapsto> k)\<rparr>)"

subsection \<open>\<^verbatim>\<open>get_arc\<close>, lines 315--362\<close>

text \<open>Lines 343--362: instantiate the builder, load or build, save, update the cache.\<close>

definition build_arc :: "'e world \<Rightarrow> string list \<Rightarrow> (artifact, 'e) M" where
  "build_arc w arc_files =
    bindM getS (\<lambda>s.
    thenM (call_art w ArcImage Construct
             [AStrs arc_files, AOptNat (det s), AArt (msbias s), APar (par s) ''arcframe'',
              AOptStr (master_key_dict s ''arc''), AOptStr (master_dir s),
              ABool (reuse_masters s)])
    (bindM (call_art w ArcImage Load []) (\<lambda>loaded.
    thenM (modifyS (\<lambda>s. s\<lparr>msarc := loaded\<rparr>))
    (thenM (if loaded = PyNone then
              thenM (msgs_info ''Preparing a master arc frame'')
              (bindM getS (\<lambda>s.
               bindM (call_art w ArcImage BuildImage [AArt (msbias s), AArt (msbpm s)]) (\<lambda>img.
               thenM (modifyS (\<lambda>s. s\<lparr>msarc := img\<rparr>))
                     (if save_masters s then thenM (call_art w ArcImage Save []) (returnM ())
                      else returnM ()))))
            else returnM ())
    (bindM getS (\<lambda>s.
     thenM (update_cache ''arc'' (One ''arc'') (One (msarc s)))
           (returnM (msarc s))))))))"

definition get_arc :: "'e world \<Rightarrow> (artifact, 'e) M" where
  "get_arc w =
    thenM (chk_set [''det'', ''calib_ID'', ''par''])
    (bindM getS (\<lambda>s.
     let arc_rows = fitstbl_find_frames w ''arc'' (calib_ID s);
         arc_files = fitstbl_frame_paths w arc_rows
     in thenM (set_key ''arc'' (fitstbl_master_key w (representative arc_rows s) (det s)))
       (bindM (key_of ''arc'') (\<lambda>k.
        bindM (cached ''arc'' k) (\<lambda>hit.
        if hit then
          bindM (key_of ''arc'') (\<lambda>k.
          bindM (cache_get k ''arc'') (\<lambda>a.
          thenM (modifyS (\<lambda>s. s\<lparr>msarc := a\<rparr>)) (returnM a)))
        else build_arc w arc_files)))))"

subsection \<open>\<^verbatim>\<open>get_tiltimg\<close>, lines 365--418\<close>

definition build_tiltimg :: "'e world \<Rightarrow> string list \<Rightarrow> (artifact, 'e) M" where
  "build_tiltimg w tilt_files =
    bindM getS (\<lambda>s.
    thenM (call_art w TiltImage Construct
             [AStrs tilt_files, AOptNat (det s), AArt (msbias s), APar (par s) ''tiltframe'',
              AOptStr (master_key_dict s ''tilt''), AOptStr (master_dir s),
              ABool (reuse_masters s)])
    (bindM (call_art w TiltImage Load []) (\<lambda>loaded.
    thenM (modifyS (\<lambda>s. s\<lparr>mstilt := Some loaded\<rparr>))
    (thenM (if loaded = PyNone then
              thenM (msgs_info ''Preparing a master tilt frame'')
              (bindM getS (\<lambda>s.
               bindM (call_art w TiltImage BuildImage [AArt (msbias s), AArt (msbpm s)]) (\<lambda>img.
               thenM (modifyS (\<lambda>s. s\<lparr>mstilt := Some img\<rparr>))
                     (if save_masters s then thenM (call_art w TiltImage Save []) (returnM ())
                      else returnM ()))))
            else returnM ())
    (bindM getS (\<lambda>s.
     case mstilt s of
       None \<Rightarrow> raiseM (AttributeError ''mstilt'')
     | Some img \<Rightarrow>
         thenM (update_cache ''tilt'' (One ''tiltimg'') (One img)) (returnM img)))))))"

definition get_tiltimg :: "'e world \<Rightarrow> (artifact, 'e) M" where
  "get_tiltimg w =
    thenM (chk_set [''det'', ''calib_ID'', ''par''])
    (bindM getS (\<lambda>s.
     let tilt_rows = fitstbl_find_frames w ''tilt'' (calib_ID s)
     in thenM (if length tilt_rows = 0 then
                 msgs_error ''Must identify tilt frames to construct tilt image.''
               else returnM ())
       (let tilt_files = fitstbl_frame_paths w tilt_rows
        in thenM (set_key ''tilt'' (fitstbl_master_key w (representative tilt_rows s) (det s)))
          (bindM (key_of ''tilt'') (\<lambda>k.
           bindM (cached ''tiltimg'' k) (\<lambda>hit.
           if hit then
             bindM (key_of ''tilt'') (\<lambda>k.
             bindM (cache_get k ''tiltimg'') (\<lambda>a.
             thenM (modifyS (\<lambda>s. s\<lparr>mstilt := Some a\<rparr>)) (returnM a)))
           else build_tiltimg w tilt_files))))))"

subsection \<open>\<^verbatim>\<open>get_bias\<close>, lines 420--467\<close>

definition build_bias :: "'e world \<Rightarrow> string list \<Rightarrow> (artifact, 'e) M" where
  "build_bias w bias_files =
    bindM getS (\<lambda>s.
    thenM (call_art w BiasFrame Construct
             [AStrs bias_files, AOptNat (det s), APar (par s) ''biasframe'',
              AOptStr (master_key_dict s ''bias''), AOptStr (master_dir s),
              ABool (reuse_masters s)])
    (bindM (call_art w BiasFrame Load []) (\<lambda>loaded.
    thenM (modifyS (\<lambda>s. s\<lparr>msbias := loaded\<rparr>))
    (thenM (if loaded = PyNone then
              bindM (call_art w BiasFrame BuildImage []) (\<lambda>img.
              thenM (modifyS (\<lambda>s. s\<lparr>msbias := img\<rparr>))
                    (if save_masters s then thenM (call_art w BiasFrame Save []) (returnM ())
                     else returnM ()))
            else returnM ())
    (bindM getS (\<lambda>s.
     thenM (update_cache ''bias'' (One ''bias'') (One (msbias s)))
           (returnM (msbias s))))))))"

definition get_bias :: "'e world \<Rightarrow> (artifact, 'e) M" where
  "get_bias w =
    thenM (chk_set [''det'', ''calib_ID'', ''par''])
    (bindM getS (\<lambda>s.
     let bias_rows = fitstbl_find_frames w ''bias'' (calib_ID s);
         bias_files = fitstbl_frame_paths w bias_rows
     in thenM (set_key ''bias'' (fitstbl_master_key w (representative bias_rows s) (det s)))
       (bindM (key_of ''bias'') (\<lambda>k.
        bindM (cached ''bias'' k) (\<lambda>hit.
        if hit then
          bindM (key_of ''bias'') (\<lambda>k.
          bindM (cache_get k ''bias'') (\<lambda>a.
          thenM (modifyS (\<lambda>s. s\<lparr>msbias := a\<rparr>))
          (thenM (msgs_info ''Reloading the bias from the internal dict'') (returnM a))))
        else build_bias w bias_files)))))"

subsection \<open>\<^verbatim>\<open>get_bpm\<close>, lines 469--511\<close>

text \<open>
  \<^verbatim>\<open>image.shape\<close>: arrays have a shape; \<^verbatim>\<open>None\<close>, a dictionary and the objects the
  orchestrator only passes on do not.
\<close>

definition shape_of :: "artifact \<Rightarrow> error + nat list" where
  "shape_of a =
    (case a of
       NDArray rows \<Rightarrow> Inr [length rows, (case rows of [] \<Rightarrow> 0 | r # _ \<Rightarrow> length r)]
     | BoolArray b \<Rightarrow> Inr [length b]
     | _ \<Rightarrow> Inl (AttributeError ''shape''))"

definition build_bpm :: "'e world \<Rightarrow> (artifact, 'e) M" where
  "build_bpm w =
    bindM getS (\<lambda>s.
    let sci_image_file = fitstbl_frame_path w (frame s)
    in bindM (if bpm_usebias (par s) then
                bindM (key_of ''bias'') (\<lambda>kb.
                bindM (cached ''bias'' kb) (\<lambda>hit.
                bindM getS (\<lambda>s. returnM (if hit then msbias s else PyNone))))
              else returnM PyNone) (\<lambda>msbias'.
       bindM (call_art w Spectrograph Bpm [AStr sci_image_file, AOptNat (det s), AArt msbias'])
         (\<lambda>bpm.
       thenM (modifyS (\<lambda>s. s\<lparr>msbpm := bpm\<rparr>))
       (bindM (liftE (shape_of bpm)) (\<lambda>sh.
       thenM (modifyS (\<lambda>s. s\<lparr>shape := Some sh\<rparr>))
       (thenM (update_cache ''bpm'' (One ''bpm'') (One bpm))
              (returnM bpm)))))))"

definition get_bpm :: "'e world \<Rightarrow> (artifact, 'e) M" where
  "get_bpm w =
    thenM (chk_set [''par'', ''det''])
    (bindM getS (\<lambda>s.
     thenM (set_key ''bpm'' (fitstbl_master_key w (frame s) (det s)))
       (bindM (key_of ''bpm'') (\<lambda>k.
        bindM (cached ''bpm'' k) (\<lambda>hit.
        if hit then
          bindM (key_of ''bpm'') (\<lambda>k.
          bindM (cache_get k ''bpm'') (\<lambda>a.
          thenM (modifyS (\<lambda>s. s\<lparr>msbpm := a\<rparr>)) (returnM a)))
        else build_bpm w)))))"

subsection \<open>The slit-trace object and its mask\<close>

text \<open>
  \<^verbatim>\<open>self.slits.mask\<close> and \<^verbatim>\<open>self.slits.nslits\<close>: only a slit-trace object has them.
  Collaborators are taken not to write the \<^verbatim>\<open>mask\<close> of an object once it is in the
  heap; the orchestrator is its only writer.
\<close>

definition slits_mask :: "(bool list, 'e) M" where
  "slits_mask = (\<lambda>s.
     case slits s of
       SlitTraceSet r \<Rightarrow>
         (case heap s r of
            None \<Rightarrow> (Inl (AttributeError ''mask''), s)
          | Some obj \<Rightarrow> (Inr (mask obj), s))
     | _ \<Rightarrow> (Inl (AttributeError ''mask''), s))"

definition slits_nslits :: "(nat, 'e) M" where
  "slits_nslits = (\<lambda>s.
     case slits s of
       SlitTraceSet r \<Rightarrow>
         (case heap s r of
            None \<Rightarrow> (Inl (AttributeError ''nslits''), s)
          | Some obj \<Rightarrow> (Inr (nslits obj), s))
     | _ \<Rightarrow> (Inl (AttributeError ''nslits''), s))"

text \<open>
  The in-place \<^verbatim>\<open>a |= b\<close> of two boolean arrays: \<open>b\<close> is broadcast to the shape of
  \<open>a\<close>, which works when the lengths agree or \<open>b\<close> has one element.
\<close>

definition np_ior :: "bool list \<Rightarrow> bool list \<Rightarrow> error + bool list" where
  "np_ior a b =
    (if length b = length a then Inr (map2 (\<or>) a b)
     else if length b = 1 then Inr (map (\<lambda>x. x \<or> hd b) a)
     else Inl (ValueError ''operands could not be broadcast together''))"

text \<open>\<^verbatim>\<open>self.slits.mask |= contribution\<close>; anything but a boolean array is a type error.\<close>

definition ior_mask :: "artifact \<Rightarrow> (unit, 'e) M" where
  "ior_mask contribution = (\<lambda>s.
     case slits s of
       SlitTraceSet r \<Rightarrow>
         (case heap s r of
            None \<Rightarrow> (Inl (AttributeError ''mask''), s)
          | Some obj \<Rightarrow>
             (case contribution of
                BoolArray b \<Rightarrow>
                  (case np_ior (mask obj) b of
                     Inl e \<Rightarrow> (Inl e, s)
                   | Inr m \<Rightarrow> (Inr (), s\<lparr>heap := (heap s)(r \<mapsto> obj\<lparr>mask := m\<rparr>)\<rparr>))
              | _ \<Rightarrow> (Inl (TypeError ''unsupported operand type(s) for |=''), s)))
     | _ \<Rightarrow> (Inl (AttributeError ''mask''), s))"

text \<open>\<^verbatim>\<open>self.slits.to_master()\<close>.\<close>

definition slits_to_master :: "'e world \<Rightarrow> (unit, 'e) M" where
  "slits_to_master w =
    bindM getS (\<lambda>s.
    case slits s of
      SlitTraceSet r \<Rightarrow> thenM (call_art w SlitTraceSetClass ToMaster [AArt (slits s)]) (returnM ())
    | _ \<Rightarrow> raiseM (AttributeError ''to_master''))"

text \<open>The write \<^verbatim>\<open>self.calib_dict[key][master_type] = data\<close>.\<close>

definition cache_put :: "string \<Rightarrow> string \<Rightarrow> artifact \<Rightarrow> (unit, 'e) M" where
  "cache_put key master_type data = (\<lambda>s.
     case calib_dict s key of
       None \<Rightarrow> (Inl (KeyError key), s)
     | Some entry \<Rightarrow>
         (Inr (), s\<lparr>calib_dict := (calib_dict s)(key \<mapsto> entry(master_type \<mapsto> data))\<rparr>))"

subsection \<open>\<^verbatim>\<open>get_flats\<close>, lines 513--668\<close>

text \<open>The identity test \<^verbatim>\<open>x is 'literal'\<close>.\<close>

definition is_literal :: "pystr \<Rightarrow> string \<Rightarrow> bool" where
  "is_literal x lit = (interned x \<and> chars x = lit)"

definition no_flats :: "(artifact \<times> artifact, 'e) M" where
  "no_flats =
    thenM (modifyS (\<lambda>s. s\<lparr>mspixelflat := PyNone\<rparr>))
    (thenM (modifyS (\<lambda>s. s\<lparr>msillumflat := PyNone\<rparr>))
    (bindM getS (\<lambda>s. returnM (mspixelflat s, msillumflat s))))"

text \<open>
  Lines 594--610, the user-supplied flat. \<^verbatim>\<open>self.flatField.master_dir\<close> is the
  directory the builder was constructed with, \<^verbatim>\<open>self.master_dir\<close>.
\<close>

definition user_flat :: "'e world \<Rightarrow> (unit, 'e) M" where
  "user_flat w =
    bindM getS (\<lambda>s.
    let name = flatfield_frame (par s) in
    bindM (call_bool w OsPath IsFile [AStr name]) (\<lambda>there.
    bindM (if there then returnM name
           else (case master_dir s of
                   None \<Rightarrow> raiseM (TypeError ''expected str, bytes or os.PathLike object, not NoneType'')
                 | Some d \<Rightarrow>
                     bindM (call_bool w OsPath IsFile [AStr (os_path_join d name)]) (\<lambda>there'.
                     if there' then returnM (os_path_join d name)
                     else msgs_error (''Could not find user-defined flatfield file: '' @ name))))
      (\<lambda>flat_file.
    thenM (msgs_info (''Using user-defined file: '' @ flat_file))
    (bindM (call_art w Fits OpenData [AStr flat_file, AOptNat (det s)]) (\<lambda>data.
    thenM (modifyS (\<lambda>s. s\<lparr>mspixelflat := data\<rparr>))
          (modifyS (\<lambda>s. s\<lparr>msillumflat := PyNone\<rparr>)))))))"

text \<open>Lines 576--668.\<close>

definition build_flats :: "'e world \<Rightarrow> string list \<Rightarrow> (artifact \<times> artifact, 'e) M" where
  "build_flats w pixflat_image_files =
    bindM getS (\<lambda>s.
    thenM (call_art w FlatField Construct
             [APar (par s) ''pixelflatframe'', AStrs pixflat_image_files, AOptNat (det s),
              AOptStr (master_key_dict s ''flat''), AOptStr (master_dir s),
              ABool (reuse_masters s), APar (par s) ''flatfield'', AArt (msbias s),
              AArt (slits s), AArt (tilts_dict s)])
    (bindM (call_triple w FlatField Load []) (\<lambda>(_, p, i).
    thenM (modifyS (\<lambda>s. s\<lparr>mspixelflat := p, msillumflat := i\<rparr>))
    (thenM (if flatfield_frame (par s) \<noteq> ''pixelflat'' then user_flat w else returnM ())
    (thenM (bindM getS (\<lambda>s.
            if mspixelflat s = PyNone \<and> length pixflat_image_files \<noteq> 0 then
              bindM (call_pair w FlatField Run [ABool (show_plots s)]) (\<lambda>(p, i).
              thenM (modifyS (\<lambda>s. s\<lparr>mspixelflat := p, msillumflat := i\<rparr>))
                    (if save_masters s then
                       thenM (call_art w FlatField Save [])
                             (if flatfield_tweak_slits (par s) then slits_to_master w
                              else returnM ())
                     else returnM ()))
            else returnM ()))
    (thenM (bindM getS (\<lambda>s.
            if mspixelflat s = PyNone then
              msgs_warn ''You are not pixel flat fielding your data!!!''
            else returnM ()))
    (thenM (bindM getS (\<lambda>s.
            if msillumflat s = PyNone \<or> \<not> flatfield_illumflatten (par s) then
              msgs_warn ''You are not illumination flat fielding your data!''
            else returnM ()))
    (bindM getS (\<lambda>s.
     thenM (update_cache ''flat'' (Tuple [''pixelflat'', ''illumflat''])
              (Tuple [mspixelflat s, msillumflat s]))
           (returnM (mspixelflat s, msillumflat s)))))))))))"

definition flats_cached :: "(bool, 'e) M" where
  "flats_cached =
    bindM (key_of ''flat'') (\<lambda>k.
    bindM (cached ''pixelflat'' k) (\<lambda>hit.
    if hit then bindM (key_of ''flat'') (\<lambda>k. cached ''illumflat'' k) else returnM False))"

definition get_flats :: "'e world \<Rightarrow> (artifact \<times> artifact, 'e) M" where
  "get_flats w =
    bindM (chk_objs [''msarc'', ''msbpm'', ''slits'', ''wv_calib'']) (\<lambda>ok.
    thenM (if \<not> ok then
             msgs_error ''Must have the arc, bpm, slits, and wv_calib defined to proceed!''
           else returnM ())
    (bindM getS (\<lambda>s.
     if is_literal (flatfield_method (par s)) ''skip'' then
       thenM (modifyS (\<lambda>s. s\<lparr>mspixelflat := PyNone\<rparr>))
       (thenM (modifyS (\<lambda>s. s\<lparr>msillumflat := PyNone\<rparr>))
       (thenM (msgs_warn (''Parameter calibrations.flatfield.method is set to skip. You are NOT ''
                          @ ''flatfielding your data!!!''))
       (bindM getS (\<lambda>s. returnM (mspixelflat s, msillumflat s)))))
     else
       bindM (chk_objs [''slits'', ''tilts_dict'']) (\<lambda>ok.
       if \<not> ok then
         thenM (msgs_warn (''Flats were requested, but there are quantities missing necessary to ''
                           @ ''create flats.  Proceeding without flat fielding....''))
               no_flats
       else
         thenM (chk_set [''det'', ''calib_ID'', ''par''])
         (bindM getS (\<lambda>s.
          let pixflat_rows = fitstbl_find_frames w ''pixelflat'' (calib_ID s);
              pixflat_image_files = fitstbl_frame_paths w pixflat_rows
          in thenM (set_key ''flat''
                      (fitstbl_master_key w (representative pixflat_rows s) (det s)))
            (bindM flats_cached (\<lambda>hit.
             if hit then
               bindM (key_of ''flat'') (\<lambda>k.
               bindM (cache_get k ''pixelflat'') (\<lambda>p.
               thenM (modifyS (\<lambda>s. s\<lparr>mspixelflat := p\<rparr>))
               (bindM (key_of ''flat'') (\<lambda>k.
                bindM (cache_get k ''illumflat'') (\<lambda>i.
                thenM (modifyS (\<lambda>s. s\<lparr>msillumflat := i\<rparr>))
                      (returnM (p, i)))))))
             else build_flats w pixflat_image_files))))))))"

subsection \<open>\<^verbatim>\<open>get_slits\<close>, lines 672--763\<close>

text \<open>Lines 741--748: the edge tracing inside \<^verbatim>\<open>try\<close>, with its bare \<^verbatim>\<open>except\<close>.\<close>

definition auto_trace_guarded :: "'e world \<Rightarrow> (unit, 'e) M" where
  "auto_trace_guarded w = (\<lambda>s.
     case call_art w EdgeTraceSet AutoTrace
            [AArt (msbpm s), AOptNat (det s), ABool (save_masters s)] s of
       (Inr _, s') \<Rightarrow> (Inr (), s')
     | (Inl _, s') \<Rightarrow>
         thenM (call_art w EdgeTraceSet Save [])
               (msgs_error (''Crashed out of finding the slits. Have saved the work done to ''
                            @ ''disk but it needs fixing.'')) s')"

text \<open>Lines 718--763.\<close>

definition build_slits :: "'e world \<Rightarrow> string list \<Rightarrow> bool \<Rightarrow> (artifact, 'e) M" where
  "build_slits w trace_image_files write_qa' =
    bindM getS (\<lambda>s.
    bindM (call_slits w SlitTraceSetClass FromMaster
             [AOptStr (master_key_dict s ''trace''), AOptStr (master_dir s),
              ABool (reuse_masters s)]) (\<lambda>loaded.
    thenM (modifyS (\<lambda>s. s\<lparr>slits := loaded\<rparr>))
    (thenM (if loaded = PyNone then
              thenM (call_art w EdgeTraceSet Construct
                       [APar (par s) ''slitedges'', AOptStr (master_key_dict s ''trace''),
                        AOptStr (master_dir s),
                        AOptStr (if write_qa' then qa_path s else None)])
              (thenM (bindM (if reuse_masters s then call_bool w EdgeTraceSet Exists []
                             else returnM False) (\<lambda>reuse.
                      if reuse then thenM (call_art w EdgeTraceSet Load []) (returnM ())
                      else
                        thenM (call_art w TraceImage Construct
                                 [AStrs trace_image_files, AOptNat (det s),
                                  APar (par s) ''traceframe'', AArt (msbias s)])
                        (thenM (call_art w TraceImage BuildImage
                                  [AArt (msbias s), AArt (msbpm s)])
                        (thenM (auto_trace_guarded w)
                               (if show_plots s then
                                  thenM (call_art w EdgeTraceSet ShowOp [ANat 10, ABool True])
                                        (returnM ())
                                else returnM ())))))
              (bindM (call_slits w EdgeTraceSet GetSlits []) (\<lambda>sl.
               thenM (modifyS (\<lambda>s. s\<lparr>slits := sl\<rparr>))
                     (if save_masters s then slits_to_master w else returnM ()))))
            else returnM ())
    (bindM getS (\<lambda>s.
     thenM (update_cache ''trace'' (One ''trace'') (One (slits s)))
           (returnM (slits s)))))))"

definition get_slits :: "'e world \<Rightarrow> bool \<Rightarrow> bool option \<Rightarrow> (artifact, 'e) M" where
  "get_slits w redo write_qa' =
    bindM getS (\<lambda>s.
    let wq = (case write_qa' of None \<Rightarrow> write_qa s | Some b \<Rightarrow> b) in
    thenM (if wq \<and> qa_path s = None then
             msgs_error ''QA path is not defined.  Cannot produce slit QA plots.''
           else returnM ())
    (bindM (chk_objs [''msbpm'']) (\<lambda>ok.
     if \<not> ok then
       thenM (modifyS (\<lambda>s. s\<lparr>slits := PyNone\<rparr>)) (returnM PyNone)
     else
       thenM (chk_set [''det'', ''calib_ID'', ''par''])
       (bindM getS (\<lambda>s.
        let trace_rows = fitstbl_find_frames w ''trace'' (calib_ID s);
            trace_image_files = fitstbl_frame_paths w trace_rows
        in thenM (set_key ''trace''
                    (fitstbl_master_key w (representative trace_rows s) (det s)))
          (bindM (key_of ''trace'') (\<lambda>k.
           bindM (cached ''trace'' k) (\<lambda>hit.
           if hit \<and> \<not> redo then
             bindM (key_of ''trace'') (\<lambda>k.
             bindM (cache_get k ''trace'') (\<lambda>a.
             thenM (modifyS (\<lambda>s. s\<lparr>slits := a\<rparr>)) (returnM a)))
           else build_slits w trace_image_files wq))))))))"

subsection \<open>\<^verbatim>\<open>get_wave\<close>, lines 765--815\<close>

text \<open>
  \<^verbatim>\<open>self.tilts_dict['tilts']\<close>: the placeholder dictionary has no such key, an array
  cannot be indexed by a string, other objects are not subscriptable.
\<close>

definition tilts_item :: "artifact \<Rightarrow> error + real list list" where
  "tilts_item a =
    (case a of
       TiltsDict t \<Rightarrow> Inr t
     | EmptyDict \<Rightarrow> Inl (KeyError ''tilts'')
     | NDArray _ \<Rightarrow> Inl (IndexError ''only integers, slices and arrays are valid indices'')
     | BoolArray _ \<Rightarrow> Inl (IndexError ''only integers, slices and arrays are valid indices'')
     | _ \<Rightarrow> Inl (TypeError ''object is not subscriptable''))"

text \<open>\<^verbatim>\<open>tilts * (tilts.shape[0] - 1.0)\<close>.\<close>

definition pixel_wave :: "real list list \<Rightarrow> artifact" where
  "pixel_wave tilts = NDArray (map (map (\<lambda>x. x * (real (length tilts) - 1))) tilts)"

definition the_attr :: "string \<Rightarrow> artifact option \<Rightarrow> (artifact, 'e) M" where
  "the_attr name v = (case v of None \<Rightarrow> raiseM (AttributeError name) | Some a \<Rightarrow> returnM a)"

text \<open>Lines 796--815.\<close>

definition build_wave :: "'e world \<Rightarrow> (artifact, 'e) M" where
  "build_wave w =
    bindM getS (\<lambda>s.
    bindM (liftE (tilts_item (tilts_dict s))) (\<lambda>tilts.
    bindM (the_attr ''wv_calib'' (wv_calib s)) (\<lambda>wvc.
    bindM slits_mask (\<lambda>m.
    bindM (key_of ''arc'') (\<lambda>k.
    thenM (call_art w WaveImage Construct
             [AArt (slits s), AArt (NDArray tilts), AArt wvc, AOptNat (det s), ABools m,
              AStr k, AOptStr (master_dir s), ABool (reuse_masters s)])
    (bindM (call_art w WaveImage Load []) (\<lambda>loaded.
    thenM (modifyS (\<lambda>s. s\<lparr>mswave := loaded\<rparr>))
    (thenM (if loaded = PyNone then
              bindM (call_art w WaveImage BuildWave []) (\<lambda>img.
              thenM (modifyS (\<lambda>s. s\<lparr>mswave := img\<rparr>))
                    (if save_masters s then thenM (call_art w WaveImage Save []) (returnM ())
                     else returnM ()))
            else returnM ())
    (bindM getS (\<lambda>s.
     thenM (update_cache ''arc'' (One ''wave'') (One (mswave s)))
           (returnM (mswave s))))))))))))"

definition get_wave :: "'e world \<Rightarrow> (artifact, 'e) M" where
  "get_wave w =
    bindM (chk_objs [''tilts_dict'', ''slits'', ''wv_calib'']) (\<lambda>ok.
    if \<not> ok then
      thenM (modifyS (\<lambda>s. s\<lparr>mswave := PyNone\<rparr>)) (returnM PyNone)
    else
      thenM (chk_set [''det'', ''par''])
      (bindM (key_of ''arc'') (\<lambda>k.
       bindM (cached ''wave'' k) (\<lambda>hit.
       if hit then
         bindM (key_of ''arc'') (\<lambda>k.
         bindM (cache_get k ''wave'') (\<lambda>a.
         thenM (modifyS (\<lambda>s. s\<lparr>mswave := a\<rparr>)) (returnM a)))
       else
         bindM getS (\<lambda>s.
         if wavelengths_reference (par s) = ''pixel'' then
           thenM (msgs_warn ''No wavelength calibration performed!'')
           (bindM (liftE (tilts_item (tilts_dict s))) (\<lambda>tilts.
            thenM (modifyS (\<lambda>s. s\<lparr>mswave := pixel_wave tilts\<rparr>))
            (bindM (key_of ''arc'') (\<lambda>k.
             thenM (cache_put k ''wave'' (pixel_wave tilts))
                   (returnM (pixel_wave tilts))))))
         else build_wave w)))))"

subsection \<open>\<^verbatim>\<open>get_wv_calib\<close>, lines 817--885\<close>

text \<open>Lines 852--885.\<close>

definition build_wv_calib :: "'e world \<Rightarrow> (artifact, 'e) M" where
  "build_wv_calib w =
    bindM getS (\<lambda>s.
    let arc_rows = fitstbl_find_frames w ''arc'' (calib_ID s);
        arc_files = fitstbl_frame_paths w arc_rows
    in case arc_files of
         [] \<Rightarrow> raiseM (IndexError ''list index out of range'')
       | arc_file # _ \<Rightarrow>
    bindM (call_art w Spectrograph GetMetaValue [AStr arc_file, AStr ''binning'']) (\<lambda>binning.
    bindM (call_pair w Parse ParseBinning [AArt binning]) (\<lambda>(binspec, binspat).
    bindM (key_of ''arc'') (\<lambda>k.
    thenM (call_art w WaveCalib Construct
             [AArt (msarc s), AArt (slits s), APar (par s) ''wavelengths'', AArt binspec,
              AOptNat (det s), AStr k, AOptStr (master_dir s), ABool (reuse_masters s),
              AOptStr (qa_path s), AArt (msbpm s)])
    (bindM (call_art w WaveCalib Load []) (\<lambda>loaded.
    thenM (modifyS (\<lambda>s. s\<lparr>wv_calib := Some loaded\<rparr>))
    (thenM (if loaded = PyNone then
              bindM (call_pair w WaveCalib Run [ABool (\<not> write_qa s)]) (\<lambda>(c, _).
              thenM (modifyS (\<lambda>s. s\<lparr>wv_calib := Some c\<rparr>))
                    (if save_masters s then thenM (call_art w WaveCalib Save []) (returnM ())
                     else returnM ()))
            else returnM ())
    (bindM slits_nslits (\<lambda>n.
     bindM (call_art w WaveCalib MakeMaskslits [ANat n]) (\<lambda>wv_maskslits.
     thenM (ior_mask wv_maskslits)
     (bindM getS (\<lambda>s.
      bindM (the_attr ''wv_calib'' (wv_calib s)) (\<lambda>c.
      thenM (update_cache ''arc'' (Tuple [''wavecalib'', ''wvmask''])
               (Tuple [c, wv_maskslits]))
            (returnM c))))))))))))))"

definition wv_calib_cached :: "(bool, 'e) M" where
  "wv_calib_cached =
    bindM (key_of ''arc'') (\<lambda>k.
    bindM (cached ''wavecalib'' k) (\<lambda>hit.
    if hit then bindM (key_of ''arc'') (\<lambda>k. cached ''wvmask'' k) else returnM False))"

text \<open>
  Lines 836--885. In the branch for the reference \<^verbatim>\<open>'pixel'\<close>, line 848 reads
  \<^verbatim>\<open>self.maskslits\<close>, an attribute that the class never assigns.
\<close>

definition wv_calib_main :: "'e world \<Rightarrow> (artifact, 'e) M" where
  "wv_calib_main w =
    bindM wv_calib_cached (\<lambda>hit.
    if hit then
      bindM (key_of ''arc'') (\<lambda>k.
      bindM (cache_get k ''wavecalib'') (\<lambda>c.
      thenM (modifyS (\<lambda>s. s\<lparr>wv_calib := Some c\<rparr>))
      (bindM (key_of ''arc'') (\<lambda>k.
       bindM (cache_get k ''wvmask'') (\<lambda>wv_maskslits.
       thenM (ior_mask wv_maskslits) (returnM c))))))
    else
      bindM getS (\<lambda>s.
      if wavelengths_reference (par s) = ''pixel'' then
        thenM (msgs_info ''A wavelength calibration will not be performed'')
        (thenM (modifyS (\<lambda>s. s\<lparr>wv_calib := Some PyNone\<rparr>))
               (raiseM (AttributeError ''maskslits'')))
      else build_wv_calib w))"

definition get_wv_calib :: "'e world \<Rightarrow> (artifact, 'e) M" where
  "get_wv_calib w =
    bindM (chk_objs [''msarc'', ''msbpm'', ''slits'']) (\<lambda>ok.
    thenM (if \<not> ok then msgs_error ''dont have all the objects'' else returnM ())
    (thenM (chk_set [''det'', ''calib_ID'', ''par''])
    (thenM (bindM getS (\<lambda>s.
            if master_key_dict s ''arc'' = None then
              msgs_error ''Arc master key not set.  First run get_arc.''
            else returnM ()))
    (wv_calib_main w))))"

subsection \<open>\<^verbatim>\<open>get_tilts\<close>, lines 887--945\<close>

text \<open>Lines 922--945.\<close>

definition build_tilts :: "'e world \<Rightarrow> (artifact, 'e) M" where
  "build_tilts w =
    bindM getS (\<lambda>s.
    bindM (the_attr ''mstilt'' (mstilt s)) (\<lambda>tiltimg.
    bindM (key_of ''tilt'') (\<lambda>k.
    thenM (call_art w WaveTilts Construct
             [AArt tiltimg, AArt (slits s), APar (par s) ''tilts'',
              APar (par s) ''wavelengths'', AOptNat (det s), AStr k, AOptStr (master_dir s),
              ABool (reuse_masters s), AOptStr (qa_path s), AArt (msbpm s)])
    (bindM (call_art w WaveTilts Load []) (\<lambda>loaded.
    thenM (modifyS (\<lambda>s. s\<lparr>tilts_dict := loaded\<rparr>))
    (bindM (if loaded = PyNone then
              bindM slits_mask (\<lambda>m.
              bindM (call_pair w WaveTilts Run
                       [ABools m, ABool (write_qa s), ABool (show_plots s)])
                (\<lambda>(td, wt_maskslits).
              thenM (modifyS (\<lambda>s. s\<lparr>tilts_dict := td\<rparr>))
              (thenM (if save_masters s then thenM (call_art w WaveTilts Save []) (returnM ())
                      else returnM ())
                     (returnM wt_maskslits))))
            else
              bindM slits_nslits (\<lambda>n. returnM (BoolArray (replicate n False))))
       (\<lambda>wt_maskslits.
    bindM getS (\<lambda>s.
    thenM (update_cache ''tilt'' (Tuple [''tilts_dict'', ''wtmask''])
             (Tuple [tilts_dict s, wt_maskslits]))
    (thenM (ior_mask wt_maskslits)
           (returnM (tilts_dict s)))))))))))"

definition tilts_cached :: "(bool, 'e) M" where
  "tilts_cached =
    bindM (key_of ''tilt'') (\<lambda>k.
    bindM (cached ''tilts_dict'' k) (\<lambda>hit.
    if hit then bindM (key_of ''tilt'') (\<lambda>k. cached ''wtmask'' k) else returnM False))"

text \<open>Lines 914--945.\<close>

definition tilts_main :: "'e world \<Rightarrow> (artifact, 'e) M" where
  "tilts_main w =
    bindM tilts_cached (\<lambda>hit.
    if hit then
      bindM (key_of ''tilt'') (\<lambda>k.
      bindM (cache_get k ''tilts_dict'') (\<lambda>td.
      thenM (modifyS (\<lambda>s. s\<lparr>tilts_dict := td\<rparr>))
      (bindM (key_of ''tilt'') (\<lambda>k.
       bindM (cache_get k ''wtmask'') (\<lambda>wt_maskslits.
       thenM (ior_mask wt_maskslits) (returnM td))))))
    else build_tilts w)"

text \<open>
  Lines 900--912. The statements that follow \<^verbatim>\<open>msgs.error\<close> in the first branch
  (lines 904--907) are never reached.
\<close>

definition get_tilts :: "'e world \<Rightarrow> (artifact, 'e) M" where
  "get_tilts w =
    bindM (chk_objs [''mstilt'', ''msbpm'', ''slits'', ''wv_calib'']) (\<lambda>ok.
    thenM (if \<not> ok then msgs_error ''dont have all the objects'' else returnM ())
    (thenM (chk_set [''det'', ''calib_ID'', ''par''])
    (thenM (bindM getS (\<lambda>s.
            if master_key_dict s ''tilt'' = None then
              msgs_error ''Tilt master key not set.  First run get_tiltimage.''
            else returnM ()))
    (tilts_main w))))"

subsection \<open>The recipe: \<^verbatim>\<open>run_the_steps\<close> and \<^verbatim>\<open>default_steps\<close>, lines 947--956 and 1019--1029\<close>

text \<open>
  \<^verbatim>\<open>getattr(self, 'get_{:s}'.format(step))()\<close>: the nine getters are the methods whose
  name starts with \<^verbatim>\<open>get_\<close>; the value returned is given as the list of the artifacts
  it holds.
\<close>

definition call_getter :: "'e world \<Rightarrow> string \<Rightarrow> (artifact list, 'e) M" where
  "call_getter w step =
    (if step = ''arc'' then bindM (get_arc w) (\<lambda>a. returnM [a])
     else if step = ''tiltimg'' then bindM (get_tiltimg w) (\<lambda>a. returnM [a])
     else if step = ''bias'' then bindM (get_bias w) (\<lambda>a. returnM [a])
     else if step = ''bpm'' then bindM (get_bpm w) (\<lambda>a. returnM [a])
     else if step = ''flats'' then bindM (get_flats w) (\<lambda>(p, i). returnM [p, i])
     else if step = ''slits'' then bindM (get_slits w False None) (\<lambda>a. returnM [a])
     else if step = ''wave'' then bindM (get_wave w) (\<lambda>a. returnM [a])
     else if step = ''wv_calib'' then bindM (get_wv_calib w) (\<lambda>a. returnM [a])
     else if step = ''tilts'' then bindM (get_tilts w) (\<lambda>a. returnM [a])
     else raiseM (AttributeError (''get_'' @ step)))"

fun run_steps :: "'e world \<Rightarrow> string list \<Rightarrow> 'e state \<Rightarrow> (error + unit) \<times> 'e state" where
  "run_steps w [] s = (Inr (), s)"
| "run_steps w (step # rest) s =
    (case call_getter w step s of
       (Inl e, s') \<Rightarrow> (Inl e, s')
     | (Inr _, s') \<Rightarrow> run_steps w rest s')"

definition run_the_steps :: "'e world \<Rightarrow> (unit, 'e) M" where
  "run_the_steps w =
    bindM getS (\<lambda>s.
    thenM (run_steps w (steps s)) (msgs_info ''Calibration complete!''))"

definition default_steps :: "string list" where
  "default_steps =
    [''bias'', ''bpm'', ''arc'', ''tiltimg'', ''slits'', ''wv_calib'', ''tilts'', ''flats'',
     ''wave'']"

text \<open>\<^verbatim>\<open>MultiSlitCalibrations.__init__\<close>, lines 1012--1017.\<close>

definition init_multislit ::
  "'e world \<Rightarrow> par \<Rightarrow> string option \<Rightarrow> string option \<Rightarrow> bool \<Rightarrow> bool \<Rightarrow> string list option
     \<Rightarrow> 'e \<Rightarrow> (error + unit) \<times> 'e state" where
  "init_multislit w p caldir qadir reuse_masters' show' steps' e =
    (case init w p caldir qadir True reuse_masters' show' e of
       (Inl err, s) \<Rightarrow> (Inl err, s)
     | (Inr _, s) \<Rightarrow>
         (Inr (), s\<lparr>steps := (case steps' of None \<Rightarrow> default_steps | Some l \<Rightarrow> l)\<rparr>))"

section \<open>Reading off what a run did\<close>

text \<open>
  \<open>outcome m s Q\<close> says that \<open>Q\<close> holds of the result and the final state of running
  \<open>m\<close> from \<open>s\<close>; \<open>on_return Q\<close> restricts a property to the runs that return.
\<close>

definition outcome ::
  "('a, 'e) M \<Rightarrow> 'e state \<Rightarrow> (error + 'a \<Rightarrow> 'e state \<Rightarrow> bool) \<Rightarrow> bool" where
  "outcome m s Q = Q (fst (m s)) (snd (m s))"

fun on_return :: "('a \<Rightarrow> 'e state \<Rightarrow> bool) \<Rightarrow> error + 'a \<Rightarrow> 'e state \<Rightarrow> bool" where
  "on_return Q (Inl _) s = True"
| "on_return Q (Inr a) s = Q a s"

section \<open>An example run\<close>

text \<open>
  A small observing run used to exercise the statements below: frame 0 is a bias,
  frame 1 an arc that also serves as tilt frame, frame 2 a trace and pixel flat,
  frame 3 the science frame; all are in calibration group 0. Nothing is on disk, so
  every \<^verbatim>\<open>load\<close> returns \<^verbatim>\<open>None\<close>; the builders return fresh objects numbered by the
  external world, a counter.
\<close>

definition example_par :: par where
  "example_par =
     \<lparr>par_id = 0, bpm_usebias = False,
      flatfield_method = \<lparr>chars = ''bspline'', interned = True\<rparr>,
      flatfield_frame = ''pixelflat'', flatfield_illumflatten = True,
      flatfield_tweak_slits = True, wavelengths_reference = ''arc''\<rparr>"

definition example_key :: "nat option \<Rightarrow> nat option \<Rightarrow> string" where
  "example_key f d =
    (if f = Some 0 then ''A_0_01'' else if f = Some 1 then ''A_1_01''
     else if f = Some 2 then ''A_2_01'' else ''A_3_01'')"

definition example_frames :: "string \<Rightarrow> int option \<Rightarrow> nat list" where
  "example_frames role cid =
    (if role = ''bias'' then [0]
     else if role = ''arc'' \<or> role = ''tilt'' then [1]
     else if role = ''trace'' \<or> role = ''pixelflat'' then [2]
     else [])"

definition example_art :: "collab \<Rightarrow> op \<Rightarrow> arg list \<Rightarrow> nat \<Rightarrow> (error + artifact) \<times> nat" where
  "example_art k f args n =
    (if f = Load then (Inr PyNone, n)
     else if f = Bpm then (Inr (NDArray [[0, 0], [0, 0]]), n)
     else if f = MakeMaskslits then (Inr (BoolArray [False, True]), n)
     else (Inr (Obj n), Suc n))"

definition example_pair ::
  "collab \<Rightarrow> op \<Rightarrow> arg list \<Rightarrow> nat \<Rightarrow> (error + artifact \<times> artifact) \<times> nat" where
  "example_pair k f args n =
    (if k = WaveTilts then
       (Inr (TiltsDict [[1/2, 1/2], [1/4, 3/4]], BoolArray [True, False]), n)
     else (Inr (Obj n, Obj (Suc n)), Suc (Suc n)))"

definition example_world :: "nat world" where
  "example_world =
     \<lparr>fitstbl_calib = (\<lambda>f. ''0''),
      fitstbl_find_frames = example_frames,
      fitstbl_frame_paths = map (\<lambda>i. ''raw/frame.fits''),
      fitstbl_frame_path = (\<lambda>f. ''raw/frame.fits''),
      fitstbl_master_key = example_key,
      ext_art = example_art,
      ext_bool = (\<lambda>k f args n. (Inr False, n)),
      ext_pair = example_pair,
      ext_triple = (\<lambda>k f args n. (Inr (PyNone, PyNone, PyNone), n)),
      ext_slits = (\<lambda>k f args n.
         if f = FromMaster then (Inr None, n)
         else (Inr (Some \<lparr>nslits = 2, mask = [False, False]\<rparr>), n))\<rparr>"

text \<open>
  The orchestrator right after construction (no directories given) and after
  \<^verbatim>\<open>set_config(3, 1)\<close>.
\<close>

definition example_new :: "nat state" where
  "example_new = snd (init_multislit example_world example_par None None False False None 0)"

definition example_configured :: "nat state" where
  "example_configured = snd (set_config example_world (Single 3) 1 None None False example_new)"

text \<open>The states of the example after each step of the default recipe.\<close>

definition example_bias_done :: "nat state" where
  "example_bias_done = snd (get_bias example_world example_configured)"

definition example_bpm_done :: "nat state" where
  "example_bpm_done = snd (get_bpm example_world example_bias_done)"

definition example_arc_done :: "nat state" where
  "example_arc_done = snd (get_arc example_world example_bpm_done)"

definition example_tiltimg_done :: "nat state" where
  "example_tiltimg_done = snd (get_tiltimg example_world example_arc_done)"

definition example_slits_done :: "nat state" where
  "example_slits_done = snd (get_slits example_world False None example_tiltimg_done)"

definition example_wv_calib_done :: "nat state" where
  "example_wv_calib_done = snd (get_wv_calib example_world example_slits_done)"

definition example_tilts_done :: "nat state" where
  "example_tilts_done = snd (get_tilts example_world example_wv_calib_done)"

text \<open>
  The same run with two other parameter sets: flat-fielding skipped, and no
  wavelength calibration (reference \<^verbatim>\<open>'pixel'\<close>). The getters for bias, bad-pixel
  mask, arc, tilt image and slits read none of these parameters.
\<close>

definition example_skip_par :: par where
  "example_skip_par = example_par\<lparr>flatfield_method := \<lparr>chars = ''skip'', interned = True\<rparr>\<rparr>"

definition example_pixel_par :: par where
  "example_pixel_par = example_par\<lparr>wavelengths_reference := ''pixel''\<rparr>"



section \<open>The master keys the getters derive\<close>

text \<open>
  The key that each getter stores in the key table before it looks into the cache.
\<close>

definition role_key :: "'e world \<Rightarrow> string \<Rightarrow> 'e state \<Rightarrow> string" where
  "role_key w role s =
     fitstbl_master_key w (representative (fitstbl_find_frames w role (calib_ID s)) s) (det s)"

definition bpm_key :: "'e world \<Rightarrow> 'e state \<Rightarrow> string" where
  "bpm_key w s = fitstbl_master_key w (frame s) (det s)"

section \<open>Reading the logs and the slit mask\<close>



section \<open>Invariants of a run\<close>

text \<open>
  \<open>inv J E m\<close>: started in a state where \<open>J\<close> holds, \<open>m\<close> either returns in a state
  where \<open>J\<close> holds again, or raises an error \<open>e\<close> in a state where \<open>E e\<close> holds.
\<close>

definition inv ::
  "('e state \<Rightarrow> bool) \<Rightarrow> (error \<Rightarrow> 'e state \<Rightarrow> bool) \<Rightarrow> ('a, 'e) M \<Rightarrow> bool" where
  "inv J E m = (\<forall>s. J s \<longrightarrow> (case m s of (Inr _, s') \<Rightarrow> J s' | (Inl e, s') \<Rightarrow> E e s'))"



text \<open>
  What the cache holds under a key and a product type, the mask of the slit-trace
  object that \<^verbatim>\<open>self.slits\<close> refers to, and the boolean OR of a mask with a
  contribution that is broadcast to its length.
\<close>

definition cache_lookup :: "'e state \<Rightarrow> string \<Rightarrow> string \<Rightarrow> artifact option" where
  "cache_lookup s k t = (case calib_dict s k of None \<Rightarrow> None | Some entry \<Rightarrow> entry t)"

definition slit_mask :: "'e state \<Rightarrow> bool list option" where
  "slit_mask s =
     (case slits s of
        SlitTraceSet r \<Rightarrow> (case heap s r of None \<Rightarrow> None | Some obj \<Rightarrow> Some (mask obj))
      | _ \<Rightarrow> None)"

definition mask_or :: "bool list \<Rightarrow> bool list \<Rightarrow> bool list" where
  "mask_or a b =
     (if length b = length a then map2 (\<or>) a b else map (\<lambda>x. x \<or> hd b) a)"

definition fits :: "bool list \<Rightarrow> bool list \<Rightarrow> bool" where
  "fits a b = (length b = length a \<or> length b = 1)"

text \<open>
  \<open>settled s0 s\<close>: the configuration and the artifacts that the getters read are in
  \<open>s\<close> what they are in \<open>s0\<close>, the key table is the same, and every key of the cache
  of \<open>s0\<close> is still a key of the cache.
\<close>

definition settled :: "'e state \<Rightarrow> 'e state \<Rightarrow> bool" where
  "settled s0 s =
     (msarc s = msarc s0 \<and> msbias s = msbias s0 \<and> msbpm s = msbpm s0 \<and> slits s = slits s0
      \<and> wv_calib s = wv_calib s0 \<and> mstilt s = mstilt s0 \<and> tilts_dict s = tilts_dict s0
      \<and> par s = par s0 \<and> det s = det s0 \<and> calib_ID s = calib_ID s0 \<and> frame s = frame s0
      \<and> qa_path s = qa_path s0 \<and> write_qa s = write_qa s0
      \<and> save_masters s = save_masters s0 \<and> reuse_masters s = reuse_masters s0
      \<and> master_dir s = master_dir s0 \<and> show_plots s = show_plots s0
      \<and> master_key_dict s = master_key_dict s0
      \<and> dom (calib_dict s0) \<subseteq> dom (calib_dict s))"

definition anything :: "error \<Rightarrow> 'e state \<Rightarrow> bool" where
  "anything e s = True"

text \<open>
  \<open>post_of J m Q\<close>: started in a state where \<open>J\<close> holds, every run of \<open>m\<close> that
  returns a value \<open>a\<close> ends in a state where \<open>Q a\<close> holds.
\<close>

definition post_of ::
  "('e state \<Rightarrow> bool) \<Rightarrow> ('a, 'e) M \<Rightarrow> ('a \<Rightarrow> 'e state \<Rightarrow> bool) \<Rightarrow> bool" where
  "post_of J m Q = (\<forall>s. J s \<longrightarrow> (case m s of (Inr a, s') \<Rightarrow> Q a s' | (Inl e, s') \<Rightarrow> True))"


section \<open>Rules for reading off outcomes\<close>

lemmas monad_defs = returnM_def raiseM_def bindM_def thenM_def getS_def modifyS_def liftE_def
  msgs_error_def msgs_warn_def msgs_info_def

lemma outcomeD: "outcome m s Q \<Longrightarrow> m s = (r, s') \<Longrightarrow> Q r s'"
  by (simp add: outcome_def)

lemma outcome_weaken:
  "outcome m s Q \<Longrightarrow> (\<And>r s'. Q r s' \<Longrightarrow> Q' r s') \<Longrightarrow> outcome m s Q'"
  by (simp add: outcome_def)

lemma outcome_returnM: "outcome (returnM x) s Q = Q (Inr x) s"
  by (simp add: outcome_def returnM_def)

lemma outcome_raiseM: "outcome (raiseM e) s Q = Q (Inl e) s"
  by (simp add: outcome_def raiseM_def)

lemma outcome_msgs_error: "outcome (msgs_error m) s Q = Q (Inl (PypeItError m)) s"
  by (simp add: outcome_def raiseM_def msgs_error_def)

lemma outcome_bindM:
  "outcome (bindM m f) s Q =
     outcome m s (\<lambda>r s'. case r of Inl e \<Rightarrow> Q (Inl e) s' | Inr x \<Rightarrow> outcome (f x) s' Q)"
  by (simp add: outcome_def bindM_def split: prod.splits sum.splits)

lemma outcome_thenM:
  "outcome (thenM m k) s Q =
     outcome m s (\<lambda>r s'. case r of Inl e \<Rightarrow> Q (Inl e) s' | Inr x \<Rightarrow> outcome k s' Q)"
  by (simp add: thenM_def outcome_bindM)

lemma outcome_getS: "outcome getS s Q = Q (Inr s) s"
  by (simp add: outcome_def getS_def)

lemma outcome_modifyS: "outcome (modifyS f) s Q = Q (Inr ()) (f s)"
  by (simp add: outcome_def modifyS_def)

lemma outcome_liftE: "outcome (liftE r) s Q = Q r s"
  by (simp add: outcome_def liftE_def)

lemma outcome_if:
  "outcome (if b then m else k) s Q = (if b then outcome m s Q else outcome k s Q)"
  by simp

lemma outcome_msgs_info:
  "outcome (msgs_info m) s Q = Q (Inr ()) (s\<lparr>messages := messages s @ [Info m]\<rparr>)"
  by (simp add: outcome_def msgs_info_def modifyS_def)

lemma outcome_msgs_warn:
  "outcome (msgs_warn m) s Q = Q (Inr ()) (s\<lparr>messages := messages s @ [Warn m]\<rparr>)"
  by (simp add: outcome_def msgs_warn_def modifyS_def)

lemma outcome_set_key:
  "outcome (set_key n k) s Q =
     Q (Inr ()) (s\<lparr>master_key_dict := (master_key_dict s)(n \<mapsto> k)\<rparr>)"
  by (simp add: outcome_def set_key_def modifyS_def)

lemma outcome_key_of:
  "outcome (key_of n) s Q =
     (case master_key_dict s n of None \<Rightarrow> Q (Inl (KeyError n)) s | Some k \<Rightarrow> Q (Inr k) s)"
  by (simp add: outcome_def key_of_def split: option.splits)

lemma outcome_the_attr:
  "outcome (the_attr n v) s Q =
     (case v of None \<Rightarrow> Q (Inl (AttributeError n)) s | Some a \<Rightarrow> Q (Inr a) s)"
  by (simp add: outcome_def the_attr_def raiseM_def returnM_def split: option.splits)

lemma outcome_call_art:
  "outcome (call_art w k f args) s Q =
     ((\<forall>a e'. ext_art w k f args (ext s) = (Inr a, e') \<longrightarrow>
          Q (Inr a) (s\<lparr>ext := e', calls := calls s @ [(k, f, True)]\<rparr>))
      \<and> (\<forall>err e'. ext_art w k f args (ext s) = (Inl err, e') \<longrightarrow>
          Q (Inl err) (s\<lparr>ext := e', calls := calls s @ [(k, f, False)]\<rparr>)))"
proof (cases "ext_art w k f args (ext s)")
  case (Pair r e')
  then show ?thesis by (cases r) (auto simp add: outcome_def call_art_def)
qed

lemma outcome_call_bool:
  "outcome (call_bool w k f args) s Q =
     ((\<forall>a e'. ext_bool w k f args (ext s) = (Inr a, e') \<longrightarrow>
          Q (Inr a) (s\<lparr>ext := e', calls := calls s @ [(k, f, True)]\<rparr>))
      \<and> (\<forall>err e'. ext_bool w k f args (ext s) = (Inl err, e') \<longrightarrow>
          Q (Inl err) (s\<lparr>ext := e', calls := calls s @ [(k, f, False)]\<rparr>)))"
proof (cases "ext_bool w k f args (ext s)")
  case (Pair r e')
  then show ?thesis by (cases r) (auto simp add: outcome_def call_bool_def)
qed

lemma outcome_call_pair:
  "outcome (call_pair w k f args) s Q =
     ((\<forall>a b e'. ext_pair w k f args (ext s) = (Inr (a, b), e') \<longrightarrow>
          Q (Inr (a, b)) (s\<lparr>ext := e', calls := calls s @ [(k, f, True)]\<rparr>))
      \<and> (\<forall>err e'. ext_pair w k f args (ext s) = (Inl err, e') \<longrightarrow>
          Q (Inl err) (s\<lparr>ext := e', calls := calls s @ [(k, f, False)]\<rparr>)))"
proof (cases "ext_pair w k f args (ext s)")
  case (Pair r e')
  then show ?thesis by (cases r) (auto simp add: outcome_def call_pair_def)
qed

lemma outcome_call_triple:
  "outcome (call_triple w k f args) s Q =
     ((\<forall>a b c e'. ext_triple w k f args (ext s) = (Inr (a, b, c), e') \<longrightarrow>
          Q (Inr (a, b, c)) (s\<lparr>ext := e', calls := calls s @ [(k, f, True)]\<rparr>))
      \<and> (\<forall>err e'. ext_triple w k f args (ext s) = (Inl err, e') \<longrightarrow>
          Q (Inl err) (s\<lparr>ext := e', calls := calls s @ [(k, f, False)]\<rparr>)))"
proof (cases "ext_triple w k f args (ext s)")
  case (Pair r e')
  then show ?thesis by (cases r) (auto simp add: outcome_def call_triple_def)
qed

lemma outcome_call_slits:
  "outcome (call_slits w k f args) s Q =
     ((\<forall>err e'. ext_slits w k f args (ext s) = (Inl err, e') \<longrightarrow>
          Q (Inl err) (s\<lparr>ext := e', calls := calls s @ [(k, f, False)]\<rparr>))
      \<and> (\<forall>e'. ext_slits w k f args (ext s) = (Inr None, e') \<longrightarrow>
          Q (Inr PyNone) (s\<lparr>ext := e', calls := calls s @ [(k, f, True)]\<rparr>))
      \<and> (\<forall>obj e'. ext_slits w k f args (ext s) = (Inr (Some obj), e') \<longrightarrow>
          Q (Inr (SlitTraceSet (next_ref s)))
            (s\<lparr>ext := e', calls := calls s @ [(k, f, True)],
               heap := (heap s)(next_ref s \<mapsto> obj), next_ref := Suc (next_ref s)\<rparr>)))"
  by (auto simp add: outcome_def call_slits_def split: prod.splits sum.splits option.splits)

lemma outcome_cached:
  "outcome (cached t k) s Q =
     (case calib_dict s k of
        None \<Rightarrow> Q (Inr False) (s\<lparr>calib_dict := (calib_dict s)(k \<mapsto> Map.empty)\<rparr>)
      | Some entry \<Rightarrow>
         (case entry t of
            Some _ \<Rightarrow>
              Q (Inr True)
                (s\<lparr>messages := messages s @
                     [Info (''Using '' @ t @ '' for '' @ k @ '' found in cache.'')]\<rparr>)
          | None \<Rightarrow>
              Q (Inr False) (s\<lparr>calib_dict := (calib_dict s)(k \<mapsto> entry(t \<mapsto> EmptyDict))\<rparr>)))"
  by (simp add: outcome_def cached_def split: option.splits)

lemma outcome_cache_get:
  "outcome (cache_get k t) s Q =
     (case calib_dict s k of
        None \<Rightarrow> Q (Inl (KeyError k)) s
      | Some entry \<Rightarrow>
         (case entry t of None \<Rightarrow> Q (Inl (KeyError t)) s | Some a \<Rightarrow> Q (Inr a) s))"
  by (simp add: outcome_def cache_get_def split: option.splits)

lemma outcome_cache_put:
  "outcome (cache_put k t a) s Q =
     (case calib_dict s k of
        None \<Rightarrow> Q (Inl (KeyError k)) s
      | Some entry \<Rightarrow> Q (Inr ()) (s\<lparr>calib_dict := (calib_dict s)(k \<mapsto> entry(t \<mapsto> a))\<rparr>))"
  by (simp add: outcome_def cache_put_def split: option.splits)

lemma outcome_update_cache_one:
  "outcome (update_cache n (One t) (One a)) s Q =
     (case master_key_dict s n of
        None \<Rightarrow> Q (Inl (KeyError n)) s
      | Some k \<Rightarrow>
         (case calib_dict s k of
            None \<Rightarrow> Q (Inl (KeyError k)) s
          | Some entry \<Rightarrow> Q (Inr ()) (s\<lparr>calib_dict := (calib_dict s)(k \<mapsto> entry(t \<mapsto> a))\<rparr>)))"
  by (simp add: outcome_def update_cache_def split: option.splits)

lemma outcome_update_cache_two:
  "outcome (update_cache n (Tuple [t, t']) (Tuple [a, a'])) s Q =
     (case master_key_dict s n of
        None \<Rightarrow> Q (Inl (KeyError n)) s
      | Some k \<Rightarrow>
         (case calib_dict s k of
            None \<Rightarrow> Q (Inl (KeyError k)) s
          | Some entry \<Rightarrow>
              Q (Inr ()) (s\<lparr>calib_dict := (calib_dict s)(k \<mapsto> entry(t \<mapsto> a, t' \<mapsto> a'))\<rparr>)))"
  by (simp add: outcome_def update_cache_def split: option.splits)

lemma attr_is_none_simps:
  "attr_is_none ''det'' s = Inr (det s = None)"
  "attr_is_none ''calib_ID'' s = Inr (calib_ID s = None)"
  "attr_is_none ''par'' s = Inr False"
  "attr_is_none ''msarc'' s = Inr (msarc s = PyNone)"
  "attr_is_none ''msbpm'' s = Inr (msbpm s = PyNone)"
  "attr_is_none ''slits'' s = Inr (slits s = PyNone)"
  "attr_is_none ''tilts_dict'' s = Inr (tilts_dict s = PyNone)"
  "attr_is_none ''wv_calib'' s =
     (case wv_calib s of None \<Rightarrow> Inl (AttributeError ''wv_calib'') | Some a \<Rightarrow> Inr (a = PyNone))"
  "attr_is_none ''mstilt'' s =
     (case mstilt s of None \<Rightarrow> Inl (AttributeError ''mstilt'') | Some a \<Rightarrow> Inr (a = PyNone))"
  by (simp_all add: attr_is_none_def)


lemma chk_set_three:
  "chk_set [''det'', ''calib_ID'', ''par''] s =
     (if det s = None then (Inl (chk_set_error ''det''), s)
      else if calib_ID s = None then (Inl (chk_set_error ''calib_ID''), s)
      else (Inr (), s))"
  by (simp add: attr_is_none_simps)

lemma chk_set_two:
  "chk_set [''par'', ''det''] s =
     (if det s = None then (Inl (chk_set_error ''det''), s) else (Inr (), s))"
  "chk_set [''det'', ''par''] s =
     (if det s = None then (Inl (chk_set_error ''det''), s) else (Inr (), s))"
  by (simp_all add: attr_is_none_simps)

lemma outcome_chk_set_three:
  "outcome (chk_set [''det'', ''calib_ID'', ''par'']) s Q =
     (if det s = None then Q (Inl (chk_set_error ''det'')) s
      else if calib_ID s = None then Q (Inl (chk_set_error ''calib_ID'')) s
      else Q (Inr ()) s)"
  by (simp add: outcome_def chk_set_three del: chk_set.simps)

lemma outcome_chk_set_two:
  "outcome (chk_set [''par'', ''det'']) s Q =
     (if det s = None then Q (Inl (chk_set_error ''det'')) s else Q (Inr ()) s)"
  "outcome (chk_set [''det'', ''par'']) s Q =
     (if det s = None then Q (Inl (chk_set_error ''det'')) s else Q (Inr ()) s)"
  by (simp_all add: outcome_def chk_set_two del: chk_set.simps)

lemma outcome_chk_objs_Nil: "outcome (chk_objs []) s Q = Q (Inr True) s"
  by (simp add: outcome_def)

lemma outcome_chk_objs_Cons:
  "outcome (chk_objs (obj # items)) s Q =
     (case attr_is_none obj s of
        Inl e \<Rightarrow> Q (Inl e) s
      | Inr is_none \<Rightarrow>
          (if is_none then Q (Inr False) (s\<lparr>messages := messages s @ chk_objs_warnings obj\<rparr>)
           else outcome (chk_objs items) s Q))"
  by (simp add: outcome_def split: sum.splits)

lemmas outcome_simps =
  outcome_returnM outcome_raiseM outcome_msgs_error outcome_bindM outcome_thenM outcome_getS
  outcome_modifyS outcome_liftE outcome_if outcome_msgs_info outcome_msgs_warn outcome_set_key
  outcome_key_of outcome_the_attr outcome_call_art outcome_call_bool outcome_call_pair
  outcome_call_triple outcome_call_slits outcome_cached outcome_cache_get outcome_cache_put
  outcome_update_cache_one outcome_update_cache_two outcome_chk_set_three
  outcome_chk_set_two outcome_chk_objs_Nil outcome_chk_objs_Cons attr_is_none_simps

section \<open>The example run, evaluated\<close>

lemma example_configured_eq:
  "example_configured =
     (blank 0 example_par)
       \<lparr>messages := [Warn (''To save masters, must provide the directory (caldir).  ''
                           @ ''Masters will not be saved!'')],
        steps := default_steps, det := Some 1, frame := Some 3, calib_ID := Some 0,
        master_key_dict := [''frame'' \<mapsto> ''A_3_01'']\<rparr>"
  by (simp add: example_configured_def example_new_def set_config_def reset_for_config_def
      configure_frame_def init_multislit_def init_def blank_def reset_internals_def example_world_def example_par_def monad_defs
      py_int_def first_field_def py_strip_def is_space_def unsigned_val_def digit_val_def
      has_comma_def example_key_def)

lemma example_configured_simps:
  "calib_dict example_configured = Map.empty"
  "det example_configured = Some 1"
  "calib_ID example_configured = Some 0"
  "frame example_configured = Some 3"
  "master_key_dict example_configured = [''frame'' \<mapsto> ''A_3_01'']"
  "calls example_configured = []"
  "ext example_configured = 0"
  "par example_configured = example_par"
  by (simp_all add: example_configured_eq blank_def)

section \<open>The cache\<close>

lemma store_all_known:
  assumes "master_key_dict s name = Some K" and "calib_dict s K = Some entry"
  shows "\<exists>entry'. store_all name kvs s = (Inr (), s\<lparr>calib_dict := (calib_dict s)(K \<mapsto> entry')\<rparr>)"
  using assms
proof (induction kvs arbitrary: s entry)
  case Nil
  have same: "(calib_dict s)(K \<mapsto> entry) = calib_dict s"
    using Nil by (simp add: fun_upd_idem)
  show ?case by (intro exI[of _ entry]) (simp add: same)
next
  case (Cons kv kvs)
  obtain key d where kv: "kv = (key, d)" by (cases kv)
  let ?s = "s\<lparr>calib_dict := (calib_dict s)(K \<mapsto> entry(key \<mapsto> d))\<rparr>"
  have p1: "master_key_dict ?s name = Some K" using Cons.prems by simp
  have p2: "calib_dict ?s K = Some (entry(key \<mapsto> d))" by simp
  from Cons.IH[OF p1 p2] obtain entry' where
    run: "store_all name kvs ?s = (Inr (), ?s\<lparr>calib_dict := (calib_dict ?s)(K \<mapsto> entry')\<rparr>)"
    by blast
  have same: "?s\<lparr>calib_dict := (calib_dict ?s)(K \<mapsto> entry')\<rparr>
                = s\<lparr>calib_dict := (calib_dict s)(K \<mapsto> entry')\<rparr>"
    by simp
  have step: "store_all name (kv # kvs) s = store_all name kvs ?s"
    using Cons.prems by (simp add: kv)
  show ?case unfolding step run same by blast
qed

lemma cached_known: "calib_dict (snd (cached P K s)) K \<noteq> None"
  by (simp add: cached_def split: option.splits)

lemma cached_keys: "master_key_dict (snd (cached P K s)) = master_key_dict s"
  by (simp add: cached_def split: option.splits)

text \<open>
  C2. When the master key \<open>K\<close> is not in the cache, \<^verbatim>\<open>_cached(P, K)\<close> inserts an empty
  entry for \<open>K\<close> and returns False; when \<open>K\<close> is there but its entry lacks \<open>P\<close>, it
  inserts the empty placeholder under \<open>(K, P)\<close> and returns False. In both cases \<open>K\<close>
  is a known key afterwards, so that every \<^verbatim>\<open>_update_cache\<close> that addresses \<open>K\<close>
  (through a name that the key table maps to \<open>K\<close>), for one product type or for a
  tuple of them, returns without error, and a single stored artifact can be read
  back under its type.
\<close>

theorem cached_registers_key:
  "(calib_dict s K = None \<longrightarrow>
      cached P K s = (Inr False, s\<lparr>calib_dict := (calib_dict s)(K \<mapsto> Map.empty)\<rparr>))
   \<and> (\<forall>entry. calib_dict s K = Some entry \<and> entry P = None \<longrightarrow>
        cached P K s
          = (Inr False, s\<lparr>calib_dict := (calib_dict s)(K \<mapsto> entry(P \<mapsto> EmptyDict))\<rparr>))
   \<and> (calib_dict s K = None \<or> (\<exists>entry. calib_dict s K = Some entry \<and> entry P = None) \<longrightarrow>
        K \<in> dom (calib_dict (snd (cached P K s)))
        \<and> (\<forall>name types data. master_key_dict s name = Some K \<longrightarrow>
              fst (update_cache name types data (snd (cached P K s))) = Inr ())
        \<and> (\<forall>name T a. master_key_dict s name = Some K \<longrightarrow>
              fst (cache_get K T
                     (snd (update_cache name (One T) (One a) (snd (cached P K s))))) = Inr a))"
proof (intro conjI impI allI)
  assume "calib_dict s K = None"
  then show "cached P K s = (Inr False, s\<lparr>calib_dict := (calib_dict s)(K \<mapsto> Map.empty)\<rparr>)"
    by (simp add: cached_def)
next
  fix entry
  assume "calib_dict s K = Some entry \<and> entry P = None"
  then show "cached P K s
      = (Inr False, s\<lparr>calib_dict := (calib_dict s)(K \<mapsto> entry(P \<mapsto> EmptyDict))\<rparr>)"
    by (simp add: cached_def)
next
  show "K \<in> dom (calib_dict (snd (cached P K s)))"
    using cached_known[of P K s] by auto
next
  fix name types data
  assume name: "master_key_dict s name = Some K"
  obtain entry where e: "calib_dict (snd (cached P K s)) K = Some entry"
    using cached_known[of P K s] by auto
  have "master_key_dict (snd (cached P K s)) name = Some K"
    using name by (simp add: cached_keys)
  from store_all_known[OF this e] obtain entry' where
    "store_all name (zip (as_tuple types) (as_tuple data)) (snd (cached P K s))
       = (Inr (), (snd (cached P K s))\<lparr>calib_dict :=
                    (calib_dict (snd (cached P K s)))(K \<mapsto> entry')\<rparr>)"
    by blast
  then show "fst (update_cache name types data (snd (cached P K s))) = Inr ()"
    by (simp add: update_cache_def)
next
  fix name T a
  assume name: "master_key_dict s name = Some K"
  obtain entry where e: "calib_dict (snd (cached P K s)) K = Some entry"
    using cached_known[of P K s] by auto
  show "fst (cache_get K T (snd (update_cache name (One T) (One a) (snd (cached P K s)))))
          = Inr a"
    using name e by (simp add: update_cache_def cache_get_def cached_keys)
qed

theorem cached_registers_key_witness:
  "cached ''arc'' ''A_1_01'' example_configured
     = (Inr False,
        example_configured\<lparr>calib_dict :=
           (calib_dict example_configured)(''A_1_01'' \<mapsto> Map.empty)\<rparr>)
   \<and> fst (update_cache ''frame'' (Tuple [''pixelflat'', ''illumflat'']) (Tuple [Obj 1, Obj 2])
             (snd (cached ''arc'' ''A_3_01'' example_configured))) = Inr ()
   \<and> cached ''bias'' ''A_3_01'' (snd (cached ''arc'' ''A_3_01'' example_configured))
       = (Inr False,
          (snd (cached ''arc'' ''A_3_01'' example_configured))\<lparr>calib_dict :=
             (calib_dict (snd (cached ''arc'' ''A_3_01'' example_configured)))
               (''A_3_01'' \<mapsto> [''bias'' \<mapsto> EmptyDict])\<rparr>)"
proof -
  have empty: "calib_dict example_configured = Map.empty"
    by (simp add: example_configured_simps)
  have key: "master_key_dict example_configured ''frame'' = Some ''A_3_01''"
    by (simp add: example_configured_simps)
  let ?s1 = "snd (cached ''arc'' ''A_3_01'' example_configured)"
  have second: "calib_dict ?s1 ''A_3_01'' = Some Map.empty"
    by (simp add: cached_def empty)
  have a: "cached ''arc'' ''A_1_01'' example_configured
     = (Inr False,
        example_configured\<lparr>calib_dict :=
           (calib_dict example_configured)(''A_1_01'' \<mapsto> Map.empty)\<rparr>)"
    using cached_registers_key[of example_configured "''A_1_01''" "''arc''"] empty by simp
  have b: "fst (update_cache ''frame'' (Tuple [''pixelflat'', ''illumflat''])
                 (Tuple [Obj 1, Obj 2]) ?s1) = Inr ()"
  proof -
    have none: "calib_dict example_configured ''A_3_01'' = None" by (simp add: empty)
    show ?thesis
      using cached_registers_key[of example_configured "''A_3_01''" "''arc''"] none key
      by blast
  qed
  have c: "cached ''bias'' ''A_3_01'' ?s1
       = (Inr False, ?s1\<lparr>calib_dict := (calib_dict ?s1)(''A_3_01'' \<mapsto> [''bias'' \<mapsto> EmptyDict])\<rparr>)"
    using cached_registers_key[of ?s1 "''A_3_01''" "''bias''"] second by simp
  show ?thesis using a b c by blast
qed

section \<open>Hits of the arc getter\<close>

lemma get_arc_hit:
  assumes "det s \<noteq> None" and "calib_ID s \<noteq> None"
    and "calib_dict s (role_key w ''arc'' s) = Some entry" and "entry ''arc'' = Some a"
  shows "get_arc w s =
     (Inr a, s\<lparr>master_key_dict := (master_key_dict s)(''arc'' \<mapsto> role_key w ''arc'' s),
               messages := messages s @
                 [Info (''Using arc for '' @ role_key w ''arc'' s @ '' found in cache.'')],
               msarc := a\<rparr>)"
proof -
  have chk: "chk_set [''det'', ''calib_ID'', ''par''] s = (Inr (), s)"
    using assms(1,2) by (simp add: chk_set_three del: chk_set.simps)
  show ?thesis
    using assms(3,4)
    by (simp add: get_arc_def chk monad_defs set_key_def key_of_def cached_def cache_get_def
        role_key_def Let_def del: chk_set.simps)
qed

lemma role_key_cong:
  "calib_ID s' = calib_ID s \<Longrightarrow> frame s' = frame s \<Longrightarrow> det s' = det s
     \<Longrightarrow> role_key w role s' = role_key w role s"
  by (simp add: role_key_def representative_def split: list.splits)

lemma cached_config:
  "calib_ID (snd (cached P K s)) = calib_ID s" "frame (snd (cached P K s)) = frame s"
  "det (snd (cached P K s)) = det s" "calls (snd (cached P K s)) = calls s"
  "ext (snd (cached P K s)) = ext s"
  by (simp_all add: cached_def split: option.splits)

text \<open>
  C10, as the code has it. When the key \<open>K\<close> is already in the cache and its entry
  lacks the product type \<open>P\<close>, two \<^verbatim>\<open>_cached(P, K)\<close> in succession with no store in
  between return False and then True, and what the cache then holds under \<open>(K, P)\<close>
  is the empty placeholder. When \<open>K\<close> is not in the cache at all, the first call only
  registers \<open>K\<close>: the first two calls return False and the third returns True. A getter
  that hits the cache at that point fetches the placeholder and calls no builder:
  \<^verbatim>\<open>get_arc\<close> returns the empty dictionary.
\<close>

theorem cached_twice:
  "(\<forall>entry. calib_dict s K = Some entry \<and> entry P = None \<longrightarrow>
      fst (cached P K s) = Inr False
      \<and> fst (cached P K (snd (cached P K s))) = Inr True
      \<and> fst (cache_get K P (snd (cached P K s))) = Inr EmptyDict)
   \<and> (calib_dict s K = None \<longrightarrow>
      fst (cached P K s) = Inr False
      \<and> fst (cached P K (snd (cached P K s))) = Inr False
      \<and> fst (cached P K (snd (cached P K (snd (cached P K s))))) = Inr True
      \<and> fst (cache_get K P (snd (cached P K (snd (cached P K s))))) = Inr EmptyDict)
   \<and> (\<forall>entry. det s \<noteq> None \<and> calib_ID s \<noteq> None
         \<and> calib_dict s (role_key w ''arc'' s) = Some entry \<and> entry ''arc'' = None \<longrightarrow>
      fst (get_arc w (snd (cached ''arc'' (role_key w ''arc'' s) s))) = Inr EmptyDict
      \<and> calls (snd (get_arc w (snd (cached ''arc'' (role_key w ''arc'' s) s)))) = calls s)"
proof (intro conjI allI impI)
  fix entry
  assume h: "det s \<noteq> None \<and> calib_ID s \<noteq> None
         \<and> calib_dict s (role_key w ''arc'' s) = Some entry \<and> entry ''arc'' = None"
  let ?K = "role_key w ''arc'' s"
  let ?s1 = "snd (cached ''arc'' ?K s)"
  have s1: "?s1 = s\<lparr>calib_dict := (calib_dict s)(?K \<mapsto> entry(''arc'' \<mapsto> EmptyDict))\<rparr>"
    using h by (simp add: cached_def)
  have k: "role_key w ''arc'' ?s1 = ?K"
    by (rule role_key_cong) (simp_all add: cached_config)
  have hit: "get_arc w ?s1 =
     (Inr EmptyDict, ?s1\<lparr>master_key_dict := (master_key_dict ?s1)(''arc'' \<mapsto> role_key w ''arc'' ?s1),
               messages := messages ?s1 @
                 [Info (''Using arc for '' @ role_key w ''arc'' ?s1 @ '' found in cache.'')],
               msarc := EmptyDict\<rparr>)"
    by (rule get_arc_hit[where entry = "entry(''arc'' \<mapsto> EmptyDict)"])
       (use h in \<open>simp_all add: k\<close>, simp_all add: s1)
  show "fst (get_arc w ?s1) = Inr EmptyDict" by (simp add: hit)
  show "calls (snd (get_arc w ?s1)) = calls s" by (simp add: hit) (simp add: s1)
qed (simp_all add: cached_def cache_get_def)

theorem cached_twice_witness:
  "fst (cached ''arc'' ''A_1_01'' (snd (cached ''bias'' ''A_1_01'' example_configured)))
     = Inr False
   \<and> fst (cached ''arc'' ''A_1_01''
       (snd (cached ''arc'' ''A_1_01'' (snd (cached ''bias'' ''A_1_01'' example_configured)))))
     = Inr True
   \<and> fst (cached ''arc'' ''A_1_01''
       (snd (cached ''arc'' ''A_1_01'' (snd (cached ''arc'' ''A_1_01'' example_configured)))))
     = Inr True
   \<and> fst (get_arc example_world
       (snd (cached ''arc'' ''A_1_01'' (snd (cached ''bias'' ''A_1_01'' example_configured)))))
     = Inr EmptyDict"
proof -
  have empty: "calib_dict example_configured = Map.empty"
    by (simp add: example_configured_simps)
  have ids: "det example_configured = Some 1 \<and> calib_ID example_configured = Some 0"
    by (simp add: example_configured_simps)
  let ?s = "snd (cached ''bias'' ''A_1_01'' example_configured)"
  have s: "?s = example_configured\<lparr>calib_dict := [''A_1_01'' \<mapsto> Map.empty]\<rparr>"
    by (simp add: cached_def empty)
  have known: "calib_dict ?s ''A_1_01'' = Some Map.empty \<and> Map.empty ''arc'' = (None :: artifact option)"
    by (simp add: s)
  have key: "role_key example_world ''arc'' ?s = ''A_1_01''"
    by (simp add: s role_key_def example_world_def example_frames_def representative_def
        example_key_def)
  have none: "calib_dict example_configured ''A_1_01'' = None"
    by (simp add: empty)
  have a: "fst (cached ''arc'' ''A_1_01'' ?s) = Inr False
           \<and> fst (cached ''arc'' ''A_1_01'' (snd (cached ''arc'' ''A_1_01'' ?s))) = Inr True"
    using cached_twice[of ?s "''A_1_01''" "''arc''" example_world] known by blast
  have b: "fst (cached ''arc'' ''A_1_01''
       (snd (cached ''arc'' ''A_1_01'' (snd (cached ''arc'' ''A_1_01'' example_configured)))))
     = Inr True"
    using cached_twice[of example_configured "''A_1_01''" "''arc''" example_world] none by blast
  have c: "fst (get_arc example_world (snd (cached ''arc'' ''A_1_01'' ?s))) = Inr EmptyDict"
    using cached_twice[of ?s "''A_1_01''" "''arc''" example_world] known key ids
    by (simp add: s)
  show ?thesis using a b c by blast
qed

text \<open>
  C10 as stated fails on a key that is not in the cache yet: nothing is stored under
  \<^verbatim>\<open>'A_1_01'\<close>, and the second \<^verbatim>\<open>_cached('arc', 'A_1_01')\<close> still returns False.
\<close>

theorem cached_twice_counterexample:
  "calib_dict example_configured ''A_1_01'' = None
   \<and> fst (cached ''arc'' ''A_1_01'' example_configured) = Inr False
   \<and> fst (cached ''arc'' ''A_1_01'' (snd (cached ''arc'' ''A_1_01'' example_configured)))
       \<noteq> Inr True"
proof -
  have empty: "calib_dict example_configured = Map.empty"
    by (simp add: example_configured_simps)
  show ?thesis by (simp add: cached_def empty)
qed

lemmas example_defs = example_world_def example_frames_def example_key_def example_art_def
  example_pair_def example_par_def

lemmas run_defs = monad_defs set_key_def key_of_def cached_def cache_get_def cache_put_def
  update_cache_def call_art_def call_bool_def call_pair_def call_triple_def call_slits_def
  representative_def attr_is_none_def Let_def

lemma example_bias:
  "get_bias example_world example_configured = (Inr (Obj 1), example_bias_done)"
  "example_bias_done =
      example_configured
        \<lparr>ext := 2,
         calls := [(BiasFrame, Construct, True), (BiasFrame, Load, True),
                   (BiasFrame, BuildImage, True)],
         calib_dict := [''A_0_01'' \<mapsto> [''bias'' \<mapsto> Obj 1]],
         msbias := Obj 1,
         master_key_dict := [''frame'' \<mapsto> ''A_3_01'', ''bias'' \<mapsto> ''A_0_01'']\<rparr>"
  by (simp_all add: example_bias_done_def get_bias_def build_bias_def run_defs example_defs
      example_configured_eq blank_def)

section \<open>Configuration\<close>

lemma reset_internals_frame:
  "calib_dict (reset_internals s) = calib_dict s"
  "messages (reset_internals s) = messages s"
  "calls (reset_internals s) = calls s"
  "ext (reset_internals s) = ext s"
  "heap (reset_internals s) = heap s"
  "wv_calib (reset_internals s) = wv_calib s"
  "mstilt (reset_internals s) = mstilt s"
  by (simp_all add: reset_internals_def)

lemma configure_frame_scratch:
  "shape (snd (configure_frame w f d p c s)) = shape s"
  "msarc (snd (configure_frame w f d p c s)) = msarc s"
  "msbias (snd (configure_frame w f d p c s)) = msbias s"
  "msbpm (snd (configure_frame w f d p c s)) = msbpm s"
  "slits (snd (configure_frame w f d p c s)) = slits s"
  "wavecalib (snd (configure_frame w f d p c s)) = wavecalib s"
  "tilts_dict (snd (configure_frame w f d p c s)) = tilts_dict s"
  "mspixelflat (snd (configure_frame w f d p c s)) = mspixelflat s"
  "msillumflat (snd (configure_frame w f d p c s)) = msillumflat s"
  "mswave (snd (configure_frame w f d p c s)) = mswave s"
  "calib_dict (snd (configure_frame w f d p c s)) = calib_dict s"
  by (simp_all add: configure_frame_def monad_defs split: option.splits sum.splits)

lemma configure_frame_fresh:
  "calib_ID (snd (configure_frame w f d p c s)) =
     (case c of
        Some g \<Rightarrow> Some g
      | None \<Rightarrow> (case py_int (first_field (fitstbl_calib w f)) of
                   Inr g \<Rightarrow> Some g | Inl _ \<Rightarrow> calib_ID s))"
  "master_key_dict (snd (configure_frame w f d p c s)) =
     (if is_ok (fst (configure_frame w f d p c s))
      then (master_key_dict s)(''frame'' \<mapsto> fitstbl_master_key w (Some f) (Some d))
      else master_key_dict s)"
  by (simp_all add: configure_frame_def monad_defs split: option.splits sum.splits)

lemma set_config_msarc: "msarc (snd (set_config w (Single f) d p c rm s)) = PyNone"
  by (simp add: set_config_def reset_for_config_def reset_internals_def monad_defs
      configure_frame_scratch)

lemma configure_frame_calibration:
  "wv_calib (snd (configure_frame w f d p c s)) = wv_calib s"
  "mstilt (snd (configure_frame w f d p c s)) = mstilt s"
  by (simp_all add: configure_frame_def monad_defs split: option.splits sum.splits)

lemma set_config_single:
  "set_config w (Single f) d p c rm s
     = configure_frame w f d p c (snd (reset_for_config rm s))"
  by (simp add: set_config_def reset_for_config_def monad_defs)

lemma reset_for_config_state:
  "shape (snd (reset_for_config rm s)) = None"
  "msarc (snd (reset_for_config rm s)) = PyNone"
  "msbias (snd (reset_for_config rm s)) = PyNone"
  "msbpm (snd (reset_for_config rm s)) = PyNone"
  "slits (snd (reset_for_config rm s)) = PyNone"
  "wavecalib (snd (reset_for_config rm s)) = PyNone"
  "tilts_dict (snd (reset_for_config rm s)) = PyNone"
  "mspixelflat (snd (reset_for_config rm s)) = PyNone"
  "msillumflat (snd (reset_for_config rm s)) = PyNone"
  "mswave (snd (reset_for_config rm s)) = PyNone"
  "calib_ID (snd (reset_for_config rm s)) = None"
  "master_key_dict (snd (reset_for_config rm s)) = Map.empty"
  "calib_dict (snd (reset_for_config rm s)) = (if rm then Map.empty else calib_dict s)"
  "wv_calib (snd (reset_for_config rm s)) = wv_calib s"
  "mstilt (snd (reset_for_config rm s)) = mstilt s"
  by (simp_all add: reset_for_config_def reset_internals_def monad_defs)

lemma example_group: "py_int (first_field (fitstbl_calib example_world f)) = Inr 0"
  by (simp add: example_defs py_int_def first_field_def py_strip_def is_space_def
      unsigned_val_def digit_val_def)

lemma example_bpm:
  "get_bpm example_world example_bias_done = (Inr (NDArray [[0, 0], [0, 0]]), example_bpm_done)"
  "example_bpm_done =
      example_configured
        \<lparr>ext := 2,
         calls := [(BiasFrame, Construct, True), (BiasFrame, Load, True),
                   (BiasFrame, BuildImage, True), (Spectrograph, Bpm, True)],
         calib_dict := [''A_0_01'' \<mapsto> [''bias'' \<mapsto> Obj 1],
                        ''A_3_01'' \<mapsto> [''bpm'' \<mapsto> NDArray [[0, 0], [0, 0]]]],
         shape := Some [2, 2],
         msbias := Obj 1,
         msbpm := NDArray [[0, 0], [0, 0]],
         master_key_dict := [''frame'' \<mapsto> ''A_3_01'', ''bias'' \<mapsto> ''A_0_01'',
                             ''bpm'' \<mapsto> ''A_3_01'']\<rparr>"
  by (simp_all add: example_bpm_done_def get_bpm_def build_bpm_def shape_of_def run_defs
      example_defs example_bias(2) example_configured_eq blank_def)

lemma example_arc:
  "get_arc example_world example_bpm_done = (Inr (Obj 3), example_arc_done)"
  "example_arc_done =
      example_configured
        \<lparr>ext := 4,
         calls := [(BiasFrame, Construct, True), (BiasFrame, Load, True),
                   (BiasFrame, BuildImage, True), (Spectrograph, Bpm, True),
                   (ArcImage, Construct, True), (ArcImage, Load, True),
                   (ArcImage, BuildImage, True)],
         messages := messages example_configured @ [Info ''Preparing a master arc frame''],
         calib_dict := [''A_0_01'' \<mapsto> [''bias'' \<mapsto> Obj 1],
                        ''A_3_01'' \<mapsto> [''bpm'' \<mapsto> NDArray [[0, 0], [0, 0]]],
                        ''A_1_01'' \<mapsto> [''arc'' \<mapsto> Obj 3]],
         shape := Some [2, 2],
         msarc := Obj 3,
         msbias := Obj 1,
         msbpm := NDArray [[0, 0], [0, 0]],
         master_key_dict := [''frame'' \<mapsto> ''A_3_01'', ''bias'' \<mapsto> ''A_0_01'',
                             ''bpm'' \<mapsto> ''A_3_01'', ''arc'' \<mapsto> ''A_1_01'']\<rparr>"
  by (simp_all add: example_arc_done_def get_arc_def build_arc_def run_defs
      example_defs example_bpm(2) example_configured_eq blank_def)

lemma example_tiltimg:
  "get_tiltimg example_world example_arc_done = (Inr (Obj 5), example_tiltimg_done)"
  "example_tiltimg_done =
      example_configured
        \<lparr>ext := 6,
         calls := [(BiasFrame, Construct, True), (BiasFrame, Load, True),
                   (BiasFrame, BuildImage, True), (Spectrograph, Bpm, True),
                   (ArcImage, Construct, True), (ArcImage, Load, True),
                   (ArcImage, BuildImage, True), (TiltImage, Construct, True),
                   (TiltImage, Load, True), (TiltImage, BuildImage, True)],
         messages := messages example_configured
                       @ [Info ''Preparing a master arc frame'',
                          Info ''Preparing a master tilt frame''],
         calib_dict := [''A_0_01'' \<mapsto> [''bias'' \<mapsto> Obj 1],
                        ''A_3_01'' \<mapsto> [''bpm'' \<mapsto> NDArray [[0, 0], [0, 0]]],
                        ''A_1_01'' \<mapsto> [''arc'' \<mapsto> Obj 3, ''tiltimg'' \<mapsto> Obj 5]],
         shape := Some [2, 2],
         msarc := Obj 3,
         msbias := Obj 1,
         msbpm := NDArray [[0, 0], [0, 0]],
         master_key_dict := [''frame'' \<mapsto> ''A_3_01'', ''bias'' \<mapsto> ''A_0_01'',
                             ''bpm'' \<mapsto> ''A_3_01'', ''arc'' \<mapsto> ''A_1_01'',
                             ''tilt'' \<mapsto> ''A_1_01''],
         mstilt := Some (Obj 5)\<rparr>"
  by (simp_all add: example_tiltimg_done_def get_tiltimg_def build_tiltimg_def run_defs
      example_defs example_arc(2) example_configured_eq blank_def)

lemma example_slits:
  "get_slits example_world False None example_tiltimg_done
     = (Inr (SlitTraceSet 0), example_slits_done)"
  "example_slits_done =
      example_configured
        \<lparr>ext := 10,
         calls := [(BiasFrame, Construct, True), (BiasFrame, Load, True),
                   (BiasFrame, BuildImage, True), (Spectrograph, Bpm, True),
                   (ArcImage, Construct, True), (ArcImage, Load, True),
                   (ArcImage, BuildImage, True), (TiltImage, Construct, True),
                   (TiltImage, Load, True), (TiltImage, BuildImage, True),
                   (SlitTraceSetClass, FromMaster, True), (EdgeTraceSet, Construct, True),
                   (TraceImage, Construct, True), (TraceImage, BuildImage, True),
                   (EdgeTraceSet, AutoTrace, True), (EdgeTraceSet, GetSlits, True)],
         messages := messages example_configured
                       @ [Info ''Preparing a master arc frame'',
                          Info ''Preparing a master tilt frame''],
         heap := [0 \<mapsto> \<lparr>nslits = 2, mask = [False, False]\<rparr>],
         next_ref := 1,
         calib_dict := [''A_0_01'' \<mapsto> [''bias'' \<mapsto> Obj 1],
                        ''A_3_01'' \<mapsto> [''bpm'' \<mapsto> NDArray [[0, 0], [0, 0]]],
                        ''A_1_01'' \<mapsto> [''arc'' \<mapsto> Obj 3, ''tiltimg'' \<mapsto> Obj 5],
                        ''A_2_01'' \<mapsto> [''trace'' \<mapsto> SlitTraceSet 0]],
         shape := Some [2, 2],
         msarc := Obj 3,
         msbias := Obj 1,
         msbpm := NDArray [[0, 0], [0, 0]],
         slits := SlitTraceSet 0,
         master_key_dict := [''frame'' \<mapsto> ''A_3_01'', ''bias'' \<mapsto> ''A_0_01'',
                             ''bpm'' \<mapsto> ''A_3_01'', ''arc'' \<mapsto> ''A_1_01'',
                             ''tilt'' \<mapsto> ''A_1_01'', ''trace'' \<mapsto> ''A_2_01''],
         mstilt := Some (Obj 5)\<rparr>"
  by (simp_all add: example_slits_done_def get_slits_def build_slits_def auto_trace_guarded_def
      slits_to_master_def run_defs example_defs example_tiltimg(2) example_configured_eq
      blank_def)

lemma example_wv_calib:
  "get_wv_calib example_world example_slits_done = (Inr (Obj 14), example_wv_calib_done)"
  "wv_calib example_wv_calib_done = Some (Obj 14)"
  "mstilt example_wv_calib_done = Some (Obj 5)"
  "calib_dict example_wv_calib_done \<noteq> Map.empty"
  by (simp_all add: example_wv_calib_done_def get_wv_calib_def wv_calib_main_def
      wv_calib_cached_def build_wv_calib_def ior_mask_def np_ior_def slits_mask_def
      slits_nslits_def the_attr_def
      run_defs example_defs example_slits(2) example_configured_eq blank_def)

section \<open>What \<^verbatim>\<open>set_config\<close> resets\<close>

lemma set_config_state:
  "let s' = snd (set_config w (Single f) d p c rm s) in
      shape s' = None \<and> msarc s' = PyNone \<and> msbias s' = PyNone \<and> msbpm s' = PyNone
      \<and> slits s' = PyNone \<and> wavecalib s' = PyNone \<and> tilts_dict s' = PyNone
      \<and> mspixelflat s' = PyNone \<and> msillumflat s' = PyNone \<and> mswave s' = PyNone
      \<and> calib_dict s' = (if rm then Map.empty else calib_dict s)
      \<and> calib_ID s' =
           (case c of
              Some g \<Rightarrow> Some g
            | None \<Rightarrow> (case py_int (first_field (fitstbl_calib w f)) of
                         Inr g \<Rightarrow> Some g | Inl e \<Rightarrow> None))
      \<and> master_key_dict s' =
           (if is_ok (fst (set_config w (Single f) d p c rm s))
            then [''frame'' \<mapsto> fitstbl_master_key w (Some f) (Some d)]
            else Map.empty)
      \<and> wv_calib s' = wv_calib s \<and> mstilt s' = mstilt s"
    unfolding Let_def set_config_single
    by (simp add: configure_frame_scratch configure_frame_fresh configure_frame_calibration
        reset_for_config_state split: option.splits sum.splits)

text \<open>
  C8, as the code has it. A call of \<^verbatim>\<open>set_config\<close> with a single frame leaves
  \<open>shape\<close>, \<open>msarc\<close>, \<open>msbias\<close>, \<open>msbpm\<close>, \<open>slits\<close>, \<open>wavecalib\<close>, \<open>tilts_dict\<close>, the
  two flats and \<open>mswave\<close> at \<^verbatim>\<open>None\<close>, and the cache as it was before the call, or
  empty when \<open>rm_cache\<close> is set; \<open>calib_ID\<close> and \<open>master_key_dict\<close> are reset and then
  set for the new frame, so that at the end of the call \<open>calib_ID\<close> is the group of
  the new frame (\<^verbatim>\<open>None\<close> only if reading the group failed) and \<open>master_key_dict\<close>
  has the key of the new frame as its only entry. A call with a sequence of frames
  raises the fatal error of line 287 and resets nothing.

  Two attributes of the run are not reset: \<open>wv_calib\<close>, the wavelength calibration
  that \<^verbatim>\<open>get_wv_calib\<close> assigns, and \<open>mstilt\<close>, the tilt image that \<^verbatim>\<open>get_tiltimg\<close>
  assigns. Line 166 resets \<open>wavecalib\<close>, a name that no other line of the class
  reads or writes. In the example, the orchestrator that has calibrated frame 3 up
  to the wavelength calibration and is then configured for frame 2 with
  \<open>rm_cache\<close> set has an empty cache and still holds the wavelength calibration and
  the tilt image of frame 3, and the guards that look at \<open>wv_calib\<close> find it there.
\<close>

theorem set_config_keeps_wv_calib:
  "(let s' = snd (set_config w (Single f) d p c rm s) in
      shape s' = None \<and> msarc s' = PyNone \<and> msbias s' = PyNone \<and> msbpm s' = PyNone
      \<and> slits s' = PyNone \<and> wavecalib s' = PyNone \<and> tilts_dict s' = PyNone
      \<and> mspixelflat s' = PyNone \<and> msillumflat s' = PyNone \<and> mswave s' = PyNone
      \<and> calib_dict s' = (if rm then Map.empty else calib_dict s)
      \<and> calib_ID s' =
           (case c of
              Some g \<Rightarrow> Some g
            | None \<Rightarrow> (case py_int (first_field (fitstbl_calib w f)) of
                         Inr g \<Rightarrow> Some g | Inl e \<Rightarrow> None))
      \<and> master_key_dict s' =
           (if is_ok (fst (set_config w (Single f) d p c rm s))
            then [''frame'' \<mapsto> fitstbl_master_key w (Some f) (Some d)]
            else Map.empty)
      \<and> wv_calib s' = wv_calib s \<and> mstilt s' = mstilt s)
   \<and> set_config w (Sequence fs) d p c rm s
        = (Inl (PypeItError ''Must provide a single integer for frame.''), s)
   \<and> (let s' = snd (set_config example_world (Single 2) 1 None None True
                       example_wv_calib_done) in
        calib_dict example_wv_calib_done \<noteq> Map.empty \<and> calib_dict s' = Map.empty
        \<and> msarc s' = PyNone \<and> calib_ID s' = Some 0
        \<and> master_key_dict s' = [''frame'' \<mapsto> ''A_2_01'']
        \<and> wv_calib s' = Some (Obj 14) \<and> mstilt s' = Some (Obj 5)
        \<and> attr_is_none ''wv_calib'' s' = Inr False)"
proof -
  have seq: "set_config w (Sequence fs) d p c rm s
        = (Inl (PypeItError ''Must provide a single integer for frame.''), s)"
    by (simp add: set_config_def msgs_error_def raiseM_def)
  have ok: "is_ok (fst (set_config example_world (Single 2) 1 None None True
              example_wv_calib_done))"
    using example_group[of 2]
    by (simp add: set_config_single configure_frame_def monad_defs has_comma_def
        example_defs)
  have key: "fitstbl_master_key example_world (Some 2) (Some 1) = ''A_2_01''"
    by (simp add: example_defs)
  have example: "let s' = snd (set_config example_world (Single 2) 1 None None True
                       example_wv_calib_done) in
        calib_dict example_wv_calib_done \<noteq> Map.empty \<and> calib_dict s' = Map.empty
        \<and> msarc s' = PyNone \<and> calib_ID s' = Some 0
        \<and> master_key_dict s' = [''frame'' \<mapsto> ''A_2_01'']
        \<and> wv_calib s' = Some (Obj 14) \<and> mstilt s' = Some (Obj 5)
        \<and> attr_is_none ''wv_calib'' s' = Inr False"
    using set_config_state[of example_world 2 1 None None True example_wv_calib_done] ok key
    by (simp add: Let_def example_wv_calib(2,3,4) example_group attr_is_none_def)
  show ?thesis using set_config_state[of w f d p c rm s] seq example by blast
qed

section \<open>Rules for the slit mask\<close>

lemma ior_mask_error_state: "fst (ior_mask c s) = Inl e \<Longrightarrow> snd (ior_mask c s) = s"
  by (auto simp add: ior_mask_def split: artifact.splits option.splits sum.splits)

lemma outcome_ior_mask:
  "outcome (ior_mask c) s Q =
     ((\<forall>r obj b m. slits s = SlitTraceSet r \<longrightarrow> heap s r = Some obj \<longrightarrow> c = BoolArray b \<longrightarrow>
          np_ior (mask obj) b = Inr m \<longrightarrow>
          Q (Inr ()) (s\<lparr>heap := (heap s)(r \<mapsto> obj\<lparr>mask := m\<rparr>)\<rparr>))
      \<and> (\<forall>e. fst (ior_mask c s) = Inl e \<longrightarrow> Q (Inl e) s))"
  by (auto simp add: outcome_def ior_mask_def split: artifact.splits option.splits sum.splits)

lemma outcome_slits_mask:
  "outcome slits_mask s Q =
     ((\<forall>r obj. slits s = SlitTraceSet r \<longrightarrow> heap s r = Some obj \<longrightarrow> Q (Inr (mask obj)) s)
      \<and> (\<forall>e. fst (slits_mask s) = Inl e \<longrightarrow> Q (Inl e) s))"
  by (auto simp add: outcome_def slits_mask_def split: artifact.splits option.splits)

lemma outcome_slits_nslits:
  "outcome slits_nslits s Q =
     ((\<forall>r obj. slits s = SlitTraceSet r \<longrightarrow> heap s r = Some obj \<longrightarrow> Q (Inr (nslits obj)) s)
      \<and> (\<forall>e. fst (slits_nslits s) = Inl e \<longrightarrow> Q (Inl e) s))"
  by (auto simp add: outcome_def slits_nslits_def split: artifact.splits option.splits)

lemma outcome_tilts_item:
  "outcome (liftE (tilts_item a)) s Q =
     ((\<forall>t. a = TiltsDict t \<longrightarrow> Q (Inr t) s)
      \<and> (\<forall>e. tilts_item a = Inl e \<longrightarrow> Q (Inl e) s))"
  by (auto simp add: outcome_def liftE_def tilts_item_def split: artifact.splits)

lemmas mask_simps = outcome_ior_mask outcome_slits_mask outcome_slits_nslits outcome_tilts_item

section \<open>The arc getter\<close>

lemma outcome_eqI: "outcome m s (\<lambda>r s'. r = r0 \<and> s' = s0) \<Longrightarrow> m s = (r0, s0)"
  by (simp add: outcome_def prod_eq_iff)

lemma get_arc_post:
  "outcome (get_arc w) s (on_return (\<lambda>a s1.
      det s1 = det s \<and> calib_ID s1 = calib_ID s \<and> frame s1 = frame s
      \<and> det s \<noteq> None \<and> calib_ID s \<noteq> None
      \<and> msarc s1 = a \<and> msbpm s1 = msbpm s \<and> slits s1 = slits s
      \<and> master_key_dict s1 = (master_key_dict s)(''arc'' \<mapsto> role_key w ''arc'' s)
      \<and> (\<exists>entry. calib_dict s1 (role_key w ''arc'' s) = Some entry \<and> entry ''arc'' = Some a)))"
  unfolding get_arc_def build_arc_def Let_def
  by (simp add: outcome_simps role_key_def split: option.splits)

section \<open>The order of the arc and the wavelength calibration\<close>

lemma get_wv_calib_no_arc:
  assumes "msarc s = PyNone"
  shows "get_wv_calib w s =
    (Inl (PypeItError ''dont have all the objects''),
     s\<lparr>messages := messages s @ chk_objs_warnings ''msarc''\<rparr>)"
  by (rule outcome_eqI) (simp add: get_wv_calib_def outcome_simps assms)

lemma get_wv_calib_no_key:
  assumes "msarc s \<noteq> PyNone" "msbpm s \<noteq> PyNone" "slits s \<noteq> PyNone"
    and "det s \<noteq> None" "calib_ID s \<noteq> None" and "master_key_dict s ''arc'' = None"
  shows "get_wv_calib w s = (Inl (PypeItError ''Arc master key not set.  First run get_arc.''), s)"
  by (rule outcome_eqI) (use assms in \<open>auto simp add: get_wv_calib_def outcome_simps\<close>)

lemma get_wv_calib_past_checks:
  assumes "msarc s \<noteq> PyNone" "msbpm s \<noteq> PyNone" "slits s \<noteq> PyNone"
    and "det s \<noteq> None" "calib_ID s \<noteq> None" and "master_key_dict s ''arc'' \<noteq> None"
  shows "get_wv_calib w s = wv_calib_main w s"
  using assms
  by (auto simp add: get_wv_calib_def monad_defs chk_set_three attr_is_none_simps
      simp del: chk_set.simps split: prod.splits)

lemma ior_mask_raises:
  "fst (ior_mask c s) = Inl e \<Longrightarrow> (e = PypeItError m) = False"
  by (auto simp add: ior_mask_def np_ior_def split: artifact.splits option.splits sum.splits
      if_splits)

lemma slits_mask_raises:
  "fst (slits_mask s) = Inl e \<Longrightarrow> (e = PypeItError m) = False"
  "fst (slits_nslits s) = Inl e \<Longrightarrow> (e = PypeItError m) = False"
  by (auto simp add: slits_mask_def slits_nslits_def split: artifact.splits option.splits)

lemma wv_calib_main_key_error:
  "outcome (wv_calib_main w) s (\<lambda>r s1.
      r = Inl (PypeItError ''Arc master key not set.  First run get_arc.'')
      \<longrightarrow> calls s1 \<noteq> calls s)"
  unfolding wv_calib_main_def wv_calib_cached_def build_wv_calib_def Let_def
  by (simp add: outcome_simps mask_simps ior_mask_raises slits_mask_raises
      split: option.splits list.splits)

lemma get_wv_calib_key_error:
  "outcome (get_wv_calib w) s (\<lambda>r s1.
      r = Inl (PypeItError ''Arc master key not set.  First run get_arc.'')
      \<and> calls s1 = calls s \<longrightarrow>
      msarc s \<noteq> PyNone \<and> msbpm s \<noteq> PyNone \<and> slits s \<noteq> PyNone \<and> det s \<noteq> None
      \<and> calib_ID s \<noteq> None \<and> master_key_dict s ''arc'' = None)"
proof (cases "msarc s \<noteq> PyNone \<and> msbpm s \<noteq> PyNone \<and> slits s \<noteq> PyNone \<and> det s \<noteq> None
      \<and> calib_ID s \<noteq> None \<and> master_key_dict s ''arc'' \<noteq> None")
  case True
  then have "get_wv_calib w s = wv_calib_main w s"
    by (simp add: get_wv_calib_past_checks)
  then have same: "outcome (get_wv_calib w) s = outcome (wv_calib_main w) s"
    by (simp add: outcome_def fun_eq_iff)
  show ?thesis
    unfolding same
    by (rule outcome_weaken[OF wv_calib_main_key_error]) blast
next
  case False
  then show ?thesis
    unfolding get_wv_calib_def
    by (auto simp add: outcome_simps chk_set_error_def)
qed

lemma get_wv_calib_key_error_iff:
  "(fst (get_wv_calib w s) = Inl (PypeItError ''Arc master key not set.  First run get_arc.'')
    \<and> calls (snd (get_wv_calib w s)) = calls s)
   = (msarc s \<noteq> PyNone \<and> msbpm s \<noteq> PyNone \<and> slits s \<noteq> PyNone \<and> det s \<noteq> None
      \<and> calib_ID s \<noteq> None \<and> master_key_dict s ''arc'' = None)"
  (is "?L = ?R")
proof
  assume ?L
  with get_wv_calib_key_error[of w s] show ?R
    unfolding outcome_def by blast
next
  assume ?R
  then have "get_wv_calib w s
     = (Inl (PypeItError ''Arc master key not set.  First run get_arc.''), s)"
    by (simp add: get_wv_calib_no_key)
  then show ?L by simp
qed

lemma get_arc_key_first:
  "outcome (get_arc w) s (\<lambda>r s1.
      msarc s1 \<noteq> msarc s \<longrightarrow> master_key_dict s1 ''arc'' \<noteq> None)"
  unfolding get_arc_def build_arc_def Let_def
  by (simp add: outcome_simps split: option.splits)

text \<open>
  C5, as the code has it. On an orchestrator that has just been configured, the arc
  is \<^verbatim>\<open>None\<close> and \<^verbatim>\<open>get_wv_calib\<close> raises the fatal error of its first guard,
  \<^verbatim>\<open>'dont have all the objects'\<close>, after the two warnings that name \<^verbatim>\<open>msarc\<close> and
  \<^verbatim>\<open>get_arc\<close>. The check of the key table is the one that stops \<^verbatim>\<open>get_wv_calib\<close>
  (the getter ends in the fatal error that names the arc master key, without having
  called a collaborator) exactly when arc, bad-pixel mask and slits are there and
  detector and calibration group are set while the table has no entry \<^verbatim>\<open>'arc'\<close>.
  \<^verbatim>\<open>get_arc\<close> does not leave such a state: in every run, one that raises
  included, it has written the entry \<^verbatim>\<open>'arc'\<close> of the table when it has changed the
  arc. After a \<^verbatim>\<open>get_arc\<close> that returned an arc other than \<^verbatim>\<open>None\<close>, with bad-pixel
  mask and slits there, \<^verbatim>\<open>get_wv_calib\<close> passes both checks and runs lines 836--885.
\<close>

theorem get_wv_calib_order:
  "get_wv_calib w (snd (set_config w (Single f) d p c rm s0)) =
     (Inl (PypeItError ''dont have all the objects''),
      (snd (set_config w (Single f) d p c rm s0))
        \<lparr>messages := messages (snd (set_config w (Single f) d p c rm s0))
                       @ [Warn ''You need to generate msarc prior to this calibration..'',
                          Warn ''Use get_arc'']\<rparr>)
   \<and> ((fst (get_wv_calib w s)
          = Inl (PypeItError ''Arc master key not set.  First run get_arc.'')
        \<and> calls (snd (get_wv_calib w s)) = calls s)
       = (msarc s \<noteq> PyNone \<and> msbpm s \<noteq> PyNone \<and> slits s \<noteq> PyNone \<and> det s \<noteq> None
          \<and> calib_ID s \<noteq> None \<and> master_key_dict s ''arc'' = None))
   \<and> (msarc s \<noteq> PyNone \<and> msbpm s \<noteq> PyNone \<and> slits s \<noteq> PyNone \<and> det s \<noteq> None
        \<and> calib_ID s \<noteq> None \<and> master_key_dict s ''arc'' = None \<longrightarrow>
       get_wv_calib w s
         = (Inl (PypeItError ''Arc master key not set.  First run get_arc.''), s))
   \<and> (msarc (snd (get_arc w s)) \<noteq> msarc s \<longrightarrow>
       master_key_dict (snd (get_arc w s)) ''arc'' \<noteq> None)
   \<and> (fst (get_arc w s) = Inr a \<and> a \<noteq> PyNone \<and> msbpm s \<noteq> PyNone \<and> slits s \<noteq> PyNone \<longrightarrow>
       master_key_dict (snd (get_arc w s)) ''arc'' \<noteq> None
       \<and> get_wv_calib w (snd (get_arc w s)) = wv_calib_main w (snd (get_arc w s)))"
proof (intro conjI impI)
  have "msarc (snd (set_config w (Single f) d p c rm s0)) = PyNone"
    by (rule set_config_msarc)
  from get_wv_calib_no_arc[OF this, of w]
  show "get_wv_calib w (snd (set_config w (Single f) d p c rm s0)) =
     (Inl (PypeItError ''dont have all the objects''),
      (snd (set_config w (Single f) d p c rm s0))
        \<lparr>messages := messages (snd (set_config w (Single f) d p c rm s0))
                       @ [Warn ''You need to generate msarc prior to this calibration..'',
                          Warn ''Use get_arc'']\<rparr>)"
    by (simp add: chk_objs_warnings_def)
next
  show "(fst (get_wv_calib w s)
          = Inl (PypeItError ''Arc master key not set.  First run get_arc.'')
        \<and> calls (snd (get_wv_calib w s)) = calls s)
       = (msarc s \<noteq> PyNone \<and> msbpm s \<noteq> PyNone \<and> slits s \<noteq> PyNone \<and> det s \<noteq> None
          \<and> calib_ID s \<noteq> None \<and> master_key_dict s ''arc'' = None)"
    by (rule get_wv_calib_key_error_iff)
next
  assume "msarc s \<noteq> PyNone \<and> msbpm s \<noteq> PyNone \<and> slits s \<noteq> PyNone \<and> det s \<noteq> None
        \<and> calib_ID s \<noteq> None \<and> master_key_dict s ''arc'' = None"
  then show "get_wv_calib w s
         = (Inl (PypeItError ''Arc master key not set.  First run get_arc.''), s)"
    by (simp add: get_wv_calib_no_key)
next
  assume "msarc (snd (get_arc w s)) \<noteq> msarc s"
  with get_arc_key_first[of w s] show "master_key_dict (snd (get_arc w s)) ''arc'' \<noteq> None"
    by (simp add: outcome_def)
next
  assume h: "fst (get_arc w s) = Inr a \<and> a \<noteq> PyNone \<and> msbpm s \<noteq> PyNone \<and> slits s \<noteq> PyNone"
  let ?s1 = "snd (get_arc w s)"
  have run: "get_arc w s = (Inr a, ?s1)" using h by (simp add: prod_eq_iff)
  from outcomeD[OF get_arc_post run]
  have post: "det ?s1 = det s \<and> calib_ID ?s1 = calib_ID s \<and> det s \<noteq> None \<and> calib_ID s \<noteq> None
      \<and> msarc ?s1 = a \<and> msbpm ?s1 = msbpm s \<and> slits ?s1 = slits s
      \<and> master_key_dict ?s1 = (master_key_dict s)(''arc'' \<mapsto> role_key w ''arc'' s)"
    by simp
  then show key: "master_key_dict ?s1 ''arc'' \<noteq> None" by simp
  show "get_wv_calib w ?s1 = wv_calib_main w ?s1"
    by (rule get_wv_calib_past_checks) (use post h key in simp_all)
qed

theorem get_wv_calib_order_witness:
  "fst (get_arc example_world example_slits_done) = Inr (Obj 3)
   \<and> get_wv_calib example_world (snd (get_arc example_world example_slits_done))
       = wv_calib_main example_world (snd (get_arc example_world example_slits_done))
   \<and> get_wv_calib example_world (example_slits_done\<lparr>master_key_dict := Map.empty\<rparr>)
       = (Inl (PypeItError ''Arc master key not set.  First run get_arc.''),
          example_slits_done\<lparr>master_key_dict := Map.empty\<rparr>)
   \<and> msarc example_bpm_done = PyNone
   \<and> msarc (snd (get_arc example_world example_bpm_done)) = Obj 3
   \<and> master_key_dict (snd (get_arc example_world example_bpm_done)) ''arc'' \<noteq> None"
proof -
  have arc: "fst (get_arc example_world example_slits_done) = Inr (Obj 3)"
    by (simp add: get_arc_def run_defs example_defs example_slits(2) example_configured_eq
        blank_def)
  have there: "Obj 3 \<noteq> PyNone \<and> msbpm example_slits_done \<noteq> PyNone
                \<and> slits example_slits_done \<noteq> PyNone"
    by (simp add: example_slits(2))
  let ?s = "example_slits_done\<lparr>master_key_dict := Map.empty\<rparr>"
  have nokey: "msarc ?s \<noteq> PyNone \<and> msbpm ?s \<noteq> PyNone \<and> slits ?s \<noteq> PyNone \<and> det ?s \<noteq> None
        \<and> calib_ID ?s \<noteq> None \<and> master_key_dict ?s ''arc'' = None"
    by (simp add: example_slits(2) example_configured_simps)
  have before: "msarc example_bpm_done = PyNone"
    by (simp add: example_bpm(2) example_bias(2) example_configured_eq blank_def)
  have after: "msarc (snd (get_arc example_world example_bpm_done)) = Obj 3"
    by (simp add: example_arc(1) example_arc(2))
  have changed: "msarc (snd (get_arc example_world example_bpm_done)) \<noteq> msarc example_bpm_done"
    using before after by simp
  have past: "get_wv_calib example_world (snd (get_arc example_world example_slits_done))
       = wv_calib_main example_world (snd (get_arc example_world example_slits_done))"
    using get_wv_calib_order[of example_world 3 1 None None False example_new
        example_slits_done "Obj 3", THEN conjunct2, THEN conjunct2, THEN conjunct2,
        THEN conjunct2] arc there
    by simp
  have stop: "get_wv_calib example_world ?s
       = (Inl (PypeItError ''Arc master key not set.  First run get_arc.''), ?s)"
    using get_wv_calib_order[of example_world 3 1 None None False example_new ?s "Obj 3",
        THEN conjunct2, THEN conjunct2, THEN conjunct1] nokey
    by (rule mp)
  have keyed: "master_key_dict (snd (get_arc example_world example_bpm_done)) ''arc'' \<noteq> None"
    using get_wv_calib_order[of example_world 3 1 None None False example_new
        example_bpm_done "Obj 3", THEN conjunct2, THEN conjunct2, THEN conjunct2,
        THEN conjunct1] changed
    by (rule mp)
  show ?thesis
    using arc past stop before after keyed by (intro conjI)
qed

text \<open>
  C5 as stated fails on the configured example: the key table has no entry
  \<^verbatim>\<open>'arc'\<close>, and the fatal error that \<^verbatim>\<open>get_wv_calib\<close> raises is the one of the first
  guard, which does not name the arc master key.
\<close>

theorem get_wv_calib_order_counterexample:
  "master_key_dict example_configured ''arc'' = None
   \<and> fst (get_wv_calib example_world example_configured)
       = Inl (PypeItError ''dont have all the objects'')
   \<and> fst (get_wv_calib example_world example_configured)
       \<noteq> Inl (PypeItError ''Arc master key not set.  First run get_arc.'')"
proof -
  have "msarc example_configured = PyNone"
    by (simp add: example_configured_eq blank_def)
  from get_wv_calib_no_arc[OF this, of example_world]
  show ?thesis by (simp add: example_configured_simps)
qed

section \<open>Flats when flat-fielding is skipped\<close>

lemma get_flats_skip:
  assumes "msarc s \<noteq> PyNone" "msbpm s \<noteq> PyNone" "slits s \<noteq> PyNone"
    and "wv_calib s = Some c" "c \<noteq> PyNone"
    and "is_literal (flatfield_method (par s)) ''skip''"
  shows "get_flats w s =
    (Inr (PyNone, PyNone),
     s\<lparr>messages := messages s @
          [Warn (''Parameter calibrations.flatfield.method is set to skip. You are NOT ''
                 @ ''flatfielding your data!!!'')],
       mspixelflat := PyNone, msillumflat := PyNone\<rparr>)"
  by (rule outcome_eqI) (use assms in \<open>simp add: get_flats_def outcome_simps\<close>)

text \<open>
  C4 on the code. The example with flat-fielding skipped, after bias, bad-pixel
  mask and arc: the method is the literal \<^verbatim>\<open>'skip'\<close> and the slits are not there yet.
  \<^verbatim>\<open>get_flats\<close> does not return \<^verbatim>\<open>(None, None)\<close>: its first guard (line 532) emits
  two warnings and raises a fatal error before the method is looked at.
\<close>

theorem get_flats_skip_without_slits:
  "is_literal (flatfield_method (par (example_arc_done\<lparr>par := example_skip_par\<rparr>))) ''skip''
   \<and> slits (example_arc_done\<lparr>par := example_skip_par\<rparr>) = PyNone
   \<and> get_flats example_world (example_arc_done\<lparr>par := example_skip_par\<rparr>)
       = (Inl (PypeItError ''Must have the arc, bpm, slits, and wv_calib defined to proceed!''),
          example_arc_done
            \<lparr>messages := messages example_arc_done
                 @ [Warn ''You need to generate slits prior to this calibration..'',
                    Warn ''Use get_slits''],
              par := example_skip_par\<rparr>)"
proof -
  let ?s = "example_arc_done\<lparr>par := example_skip_par\<rparr>"
  have facts: "msarc ?s \<noteq> PyNone \<and> msbpm ?s \<noteq> PyNone \<and> slits ?s = PyNone"
    by (simp add: example_arc(2) example_configured_eq blank_def)
  have skip: "is_literal (flatfield_method (par ?s)) ''skip''"
    by (simp add: is_literal_def example_skip_par_def)
  have run: "get_flats example_world ?s
       = (Inl (PypeItError ''Must have the arc, bpm, slits, and wv_calib defined to proceed!''),
          ?s\<lparr>messages := messages ?s @ chk_objs_warnings ''slits''\<rparr>)"
    by (rule outcome_eqI) (use facts in \<open>simp add: get_flats_def outcome_simps\<close>)
  show ?thesis
    using facts skip run by (simp add: chk_objs_warnings_def)
qed

section \<open>The reference \<^verbatim>\<open>'pixel'\<close>\<close>

lemma wv_calib_main_pixel:
  assumes "wavelengths_reference (par s) = ''pixel''"
  shows "outcome (wv_calib_main w) s (on_return (\<lambda>a s1.
           \<exists>K entry m. master_key_dict s ''arc'' = Some K \<and> calib_dict s K = Some entry
              \<and> entry ''wavecalib'' = Some a \<and> entry ''wvmask'' = Some m))"
  using assms unfolding wv_calib_main_def wv_calib_cached_def
  by (simp add: outcome_simps mask_simps split: option.splits)

lemma get_wv_calib_pixel:
  assumes "wavelengths_reference (par s) = ''pixel''"
  shows "outcome (get_wv_calib w) s (on_return (\<lambda>a s1.
           \<exists>K entry m. master_key_dict s ''arc'' = Some K \<and> calib_dict s K = Some entry
              \<and> entry ''wavecalib'' = Some a \<and> entry ''wvmask'' = Some m))"
  using wv_calib_main_pixel[OF assms, of w] unfolding get_wv_calib_def
  by (simp add: outcome_simps)

lemma get_wave_no_wv_calib:
  assumes "tilts_dict s \<noteq> PyNone" "slits s \<noteq> PyNone" "wv_calib s = Some PyNone"
  shows "get_wave w s =
    (Inr PyNone,
     s\<lparr>messages := messages s @ chk_objs_warnings ''wv_calib'', mswave := PyNone\<rparr>)"
  by (rule outcome_eqI) (use assms in \<open>simp add: get_wave_def outcome_simps\<close>)

text \<open>
  C3 on the code. The example with the reference \<^verbatim>\<open>'pixel'\<close>, after bias, bad-pixel
  mask, arc, tilt image and slits; the cache has no wavelength calibration.
  \<^verbatim>\<open>get_wv_calib\<close> calls no builder, sets \<^verbatim>\<open>wv_calib\<close> to \<^verbatim>\<open>None\<close> and then raises
  \<open>AttributeError\<close>: line 848 reads \<^verbatim>\<open>self.maskslits\<close>, which no method assigns; the
  mask of the slits is not touched. With that \<^verbatim>\<open>wv_calib\<close>, and even with tilts
  available, \<^verbatim>\<open>get_wave\<close> returns \<^verbatim>\<open>None\<close> from its first guard (line 777) instead of
  \<^verbatim>\<open>tilts * (nspec - 1)\<close>.
\<close>

theorem pixel_reference_raises:
  "wavelengths_reference (par (example_slits_done\<lparr>par := example_pixel_par\<rparr>)) = ''pixel''
   \<and> fst (get_wv_calib example_world (example_slits_done\<lparr>par := example_pixel_par\<rparr>))
       = Inl (AttributeError ''maskslits'')
   \<and> calls (snd (get_wv_calib example_world (example_slits_done\<lparr>par := example_pixel_par\<rparr>)))
       = calls example_slits_done
   \<and> heap (snd (get_wv_calib example_world (example_slits_done\<lparr>par := example_pixel_par\<rparr>)))
       = heap example_slits_done
   \<and> wv_calib (snd (get_wv_calib example_world (example_slits_done\<lparr>par := example_pixel_par\<rparr>)))
       = Some PyNone
   \<and> fst (get_wave example_world
            ((snd (get_wv_calib example_world (example_slits_done\<lparr>par := example_pixel_par\<rparr>)))
               \<lparr>tilts_dict := TiltsDict [[1/2, 1/2], [1/4, 3/4]]\<rparr>))
       = Inr PyNone
   \<and> pixel_wave [[1/2, 1/2], [1/4, 3/4]] = NDArray [[1/2, 1/2], [1/4, 3/4]]"
proof -
  let ?s = "example_slits_done\<lparr>par := example_pixel_par\<rparr>"
  have run: "get_wv_calib example_world ?s =
     (Inl (AttributeError ''maskslits''),
      ?s\<lparr>messages := messages ?s @ [Info ''A wavelength calibration will not be performed''],
         calib_dict := (calib_dict ?s)
            (''A_1_01'' \<mapsto> [''arc'' \<mapsto> Obj 3, ''tiltimg'' \<mapsto> Obj 5, ''wavecalib'' \<mapsto> EmptyDict]),
         wv_calib := Some PyNone\<rparr>)"
    by (rule outcome_eqI)
       (simp add: get_wv_calib_def wv_calib_main_def wv_calib_cached_def outcome_simps
          example_slits(2) example_configured_eq blank_def example_pixel_par_def
          example_par_def)
  let ?t = "(snd (get_wv_calib example_world ?s))\<lparr>tilts_dict := TiltsDict [[1/2, 1/2], [1/4, 3/4]]\<rparr>"
  have after: "tilts_dict ?t \<noteq> PyNone \<and> slits ?t \<noteq> PyNone \<and> wv_calib ?t = Some PyNone"
    unfolding run by (simp add: example_slits(2))
  have wave: "fst (get_wave example_world ?t) = Inr PyNone"
    using after by (simp add: get_wave_no_wv_calib)
  have first: "fst (get_wv_calib example_world ?s) = Inl (AttributeError ''maskslits'')
     \<and> calls (snd (get_wv_calib example_world ?s)) = calls example_slits_done
     \<and> heap (snd (get_wv_calib example_world ?s)) = heap example_slits_done
     \<and> wv_calib (snd (get_wv_calib example_world ?s)) = Some PyNone"
    unfolding run by simp
  have pixel: "wavelengths_reference (par ?s) = ''pixel''"
    by (simp add: example_pixel_par_def)
  have ramp: "pixel_wave [[1/2, 1/2], [1/4, 3/4]] = NDArray [[1/2, 1/2], [1/4, 3/4]]"
    by (simp add: pixel_wave_def)
  show ?thesis
    using pixel first wave ramp by blast
qed

section \<open>No raw frames of a role\<close>












section \<open>Rules for invariants\<close>

lemma inv_returnM: "inv J E (returnM x)"
  by (simp add: inv_def returnM_def)

lemma inv_raiseM: "(\<And>s. J s \<Longrightarrow> E e s) \<Longrightarrow> inv J E (raiseM e)"
  by (simp add: inv_def raiseM_def)


lemma inv_bindM:
  assumes "inv J E m" and "\<And>x. inv J E (f x)"
  shows "inv J E (bindM m f)"
  unfolding inv_def
proof (intro allI impI)
  fix s
  assume j: "J s"
  obtain r s1 where run: "m s = (r, s1)" by (cases "m s")
  have step: "case m s of (Inr _, s') \<Rightarrow> J s' | (Inl e, s') \<Rightarrow> E e s'"
    using assms(1) j by (simp add: inv_def)
  show "case bindM m f s of (Inr _, s') \<Rightarrow> J s' | (Inl e, s') \<Rightarrow> E e s'"
  proof (cases r)
    case (Inl e)
    then show ?thesis using step run by (simp add: bindM_def)
  next
    case (Inr x)
    then have "J s1" using step run by simp
    with assms(2)[of x] have "case f x s1 of (Inr _, s') \<Rightarrow> J s' | (Inl e, s') \<Rightarrow> E e s'"
      by (simp add: inv_def)
    then show ?thesis using Inr run by (simp add: bindM_def)
  qed
qed

lemma inv_thenM: "inv J E m \<Longrightarrow> inv J E k \<Longrightarrow> inv J E (thenM m k)"
  by (simp add: thenM_def inv_bindM)

lemma inv_if: "inv J E m \<Longrightarrow> inv J E k \<Longrightarrow> inv J E (if b then m else k)"
  by simp

lemma inv_let: "inv J E (f v) \<Longrightarrow> inv J E (Let v f)"
  by simp

lemma inv_case_option:
  "inv J E a \<Longrightarrow> (\<And>x. inv J E (b x)) \<Longrightarrow> inv J E (case v of None \<Rightarrow> a | Some x \<Rightarrow> b x)"
  by (cases v) simp_all

lemma inv_case_list:
  "inv J E a \<Longrightarrow> (\<And>x xs. inv J E (b x xs)) \<Longrightarrow> inv J E (case v of [] \<Rightarrow> a | x # xs \<Rightarrow> b x xs)"
  by (cases v) simp_all

lemma inv_case_prod: "(\<And>a b. inv J E (f a b)) \<Longrightarrow> inv J E (case_prod f v)"
  by (cases v) simp

lemma inv_getS: "inv J E getS"
  by (simp add: inv_def getS_def)

lemma inv_modifyS: "(\<And>s. J s \<Longrightarrow> J (f s)) \<Longrightarrow> inv J E (modifyS f)"
  by (simp add: inv_def modifyS_def)

lemma inv_liftE: "(\<And>s e. J s \<Longrightarrow> E e s) \<Longrightarrow> inv J E (liftE r)"
  by (cases r) (simp_all add: inv_def liftE_def)

lemmas inv_structure = inv_returnM inv_bindM inv_thenM inv_if inv_let inv_case_option
  inv_case_list inv_case_prod inv_getS

section \<open>A failed edge tracing\<close>



















section \<open>What the getters leave behind\<close>

lemma np_ior_mask_or: "np_ior a b = Inr m \<longleftrightarrow> fits a b \<and> m = mask_or a b"
  by (auto simp add: np_ior_def fits_def mask_or_def)

lemma get_wv_calib_post:
  "outcome (get_wv_calib w) s (on_return (\<lambda>c s1.
      msarc s1 = msarc s \<and> msbpm s1 = msbpm s \<and> slits s1 = slits s
      \<and> msarc s \<noteq> PyNone \<and> msbpm s \<noteq> PyNone \<and> slits s \<noteq> PyNone
      \<and> det s1 = det s \<and> calib_ID s1 = calib_ID s \<and> det s \<noteq> None \<and> calib_ID s \<noteq> None
      \<and> master_key_dict s1 = master_key_dict s
      \<and> mstilt s1 = mstilt s \<and> tilts_dict s1 = tilts_dict s \<and> par s1 = par s
      \<and> wv_calib s1 = Some c
      \<and> (\<forall>k t. t \<noteq> ''wavecalib'' \<and> t \<noteq> ''wvmask'' \<longrightarrow> cache_lookup s1 k t = cache_lookup s k t)
      \<and> (\<exists>k r obj b. master_key_dict s ''arc'' = Some k
            \<and> cache_lookup s1 k ''wavecalib'' = Some c
            \<and> cache_lookup s1 k ''wvmask'' = Some (BoolArray b)
            \<and> slits s = SlitTraceSet r \<and> heap s r = Some obj \<and> fits (mask obj) b
            \<and> heap s1 = (heap s)(r \<mapsto> obj\<lparr>mask := mask_or (mask obj) b\<rparr>))))"
  unfolding get_wv_calib_def wv_calib_main_def wv_calib_cached_def build_wv_calib_def Let_def
  by (simp add: outcome_simps mask_simps np_ior_mask_or cache_lookup_def
      split: option.splits list.splits)

lemma get_tilts_post:
  "outcome (get_tilts w) s (on_return (\<lambda>td s1.
      mstilt s1 = mstilt s \<and> msbpm s1 = msbpm s \<and> slits s1 = slits s
      \<and> wv_calib s1 = wv_calib s \<and> msarc s1 = msarc s \<and> par s1 = par s
      \<and> (\<exists>t c. mstilt s = Some t \<and> t \<noteq> PyNone \<and> wv_calib s = Some c \<and> c \<noteq> PyNone)
      \<and> msbpm s \<noteq> PyNone \<and> slits s \<noteq> PyNone
      \<and> det s1 = det s \<and> calib_ID s1 = calib_ID s \<and> det s \<noteq> None \<and> calib_ID s \<noteq> None
      \<and> master_key_dict s1 = master_key_dict s
      \<and> tilts_dict s1 = td
      \<and> (\<forall>k t. t \<noteq> ''tilts_dict'' \<and> t \<noteq> ''wtmask'' \<longrightarrow> cache_lookup s1 k t = cache_lookup s k t)
      \<and> (\<exists>k r obj b. master_key_dict s ''tilt'' = Some k
            \<and> cache_lookup s1 k ''tilts_dict'' = Some td
            \<and> cache_lookup s1 k ''wtmask'' = Some (BoolArray b)
            \<and> slits s = SlitTraceSet r \<and> heap s r = Some obj \<and> fits (mask obj) b
            \<and> heap s1 = (heap s)(r \<mapsto> obj\<lparr>mask := mask_or (mask obj) b\<rparr>))))"
  unfolding get_tilts_def tilts_main_def tilts_cached_def build_tilts_def Let_def
  by (simp add: outcome_simps mask_simps np_ior_mask_or cache_lookup_def
      split: option.splits)

lemma get_bias_post:
  "outcome (get_bias w) s (on_return (\<lambda>a s1.
      det s1 = det s \<and> calib_ID s1 = calib_ID s \<and> frame s1 = frame s
      \<and> det s \<noteq> None \<and> calib_ID s \<noteq> None
      \<and> cache_lookup s1 (role_key w ''bias'' s) ''bias'' = Some a))"
  unfolding get_bias_def build_bias_def Let_def
  by (simp add: outcome_simps role_key_def cache_lookup_def split: option.splits)

lemma get_tiltimg_post:
  "outcome (get_tiltimg w) s (on_return (\<lambda>a s1.
      det s1 = det s \<and> calib_ID s1 = calib_ID s \<and> frame s1 = frame s
      \<and> det s \<noteq> None \<and> calib_ID s \<noteq> None
      \<and> fitstbl_find_frames w ''tilt'' (calib_ID s) \<noteq> []
      \<and> cache_lookup s1 (role_key w ''tilt'' s) ''tiltimg'' = Some a))"
  unfolding get_tiltimg_def build_tiltimg_def Let_def
  by (simp add: outcome_simps role_key_def cache_lookup_def split: option.splits)

lemma get_bpm_post:
  "outcome (get_bpm w) s (on_return (\<lambda>a s1.
      det s1 = det s \<and> frame s1 = frame s \<and> det s \<noteq> None
      \<and> cache_lookup s1 (bpm_key w s) ''bpm'' = Some a))"
  unfolding get_bpm_def build_bpm_def Let_def
  by (simp add: outcome_simps bpm_key_def cache_lookup_def split: option.splits sum.splits)

lemma get_wave_post:
  "outcome (get_wave w) s (on_return (\<lambda>a s1.
      tilts_dict s1 = tilts_dict s \<and> slits s1 = slits s \<and> wv_calib s1 = wv_calib s
      \<and> det s1 = det s \<and> master_key_dict s1 = master_key_dict s
      \<and> (if tilts_dict s = PyNone \<or> slits s = PyNone \<or> wv_calib s = Some PyNone
          then a = PyNone
          else det s \<noteq> None \<and> wv_calib s \<noteq> None
               \<and> (\<exists>k. master_key_dict s ''arc'' = Some k
                      \<and> cache_lookup s1 k ''wave'' = Some a))))"
  unfolding get_wave_def build_wave_def Let_def
  by (simp add: outcome_simps outcome_slits_mask cache_lookup_def
      split: option.splits sum.splits)

section \<open>Flats\<close>

lemma inv_anything:
  assumes "\<And>s. J s \<Longrightarrow> J (snd (m s))"
  shows "inv J anything m"
  unfolding inv_def
proof (intro allI impI)
  fix s assume "J s"
  then have "J (snd (m s))" by (rule assms)
  then show "case m s of (Inr _, s') \<Rightarrow> J s' | (Inl e, s') \<Rightarrow> anything e s'"
    by (cases "m s") (auto simp add: anything_def split: sum.splits)
qed

lemma store_all_settled: "settled s0 s \<Longrightarrow> settled s0 (snd (store_all nm kvs s))"
proof (induction nm kvs s rule: store_all.induct)
  case (1 master_key s)
  then show ?case by simp
next
  case (2 master_key key d rest s)
  show ?case
  proof (cases "master_key_dict s master_key")
    case None
    then show ?thesis using 2 by simp
  next
    case (Some k)
    show ?thesis
    proof (cases "calib_dict s k")
      case None
      then show ?thesis using 2 Some by simp
    next
      case (Some entry)
      have "settled s0 (s\<lparr>calib_dict := (calib_dict s)(k \<mapsto> entry(key \<mapsto> d))\<rparr>)"
        using "2.prems" by (auto simp add: settled_def)
      from "2.IH"[OF \<open>master_key_dict s master_key = Some k\<close> Some this]
      show ?thesis using \<open>master_key_dict s master_key = Some k\<close> Some by simp
    qed
  qed
qed

lemma settled_steps:
  "settled s0 s \<Longrightarrow> settled s0 (snd (call_art w k f args s))"
  "settled s0 s \<Longrightarrow> settled s0 (snd (call_bool w k f args s))"
  "settled s0 s \<Longrightarrow> settled s0 (snd (call_pair w k f args s))"
  "settled s0 s \<Longrightarrow> settled s0 (snd (call_triple w k f args s))"
  "settled s0 s \<Longrightarrow> settled s0 (snd (msgs_info m s))"
  "settled s0 s \<Longrightarrow> settled s0 (snd (msgs_warn m s))"
  "settled s0 s \<Longrightarrow> settled s0 (snd (msgs_error m s))"
  "settled s0 s \<Longrightarrow> settled s0 (snd (update_cache nm t d s))"
  by (auto simp add: settled_def call_art_def call_bool_def call_pair_def call_triple_def
      monad_defs update_cache_def store_all_settled[unfolded settled_def]
      split: prod.splits)

lemmas settled_inv =
  inv_anything[of "settled s0" "call_art w k f args" for s0 w k f args, OF settled_steps(1)]
  inv_anything[of "settled s0" "call_bool w k f args" for s0 w k f args, OF settled_steps(2)]
  inv_anything[of "settled s0" "call_pair w k f args" for s0 w k f args, OF settled_steps(3)]
  inv_anything[of "settled s0" "call_triple w k f args" for s0 w k f args, OF settled_steps(4)]
  inv_anything[of "settled s0" "msgs_info m" for s0 m, OF settled_steps(5)]
  inv_anything[of "settled s0" "msgs_warn m" for s0 m, OF settled_steps(6)]
  inv_anything[of "settled s0" "msgs_error m" for s0 m, OF settled_steps(7)]
  inv_anything[of "settled s0" "update_cache nm t d" for s0 nm t d, OF settled_steps(8)]

lemma settled_slits_to_master: "inv (settled s0) anything (slits_to_master w)"
  unfolding slits_to_master_def
  by (auto split: artifact.splits
      intro!: inv_structure inv_raiseM settled_inv simp add: anything_def)

lemma settled_user_flat: "inv (settled s0) anything (user_flat w)"
  unfolding user_flat_def
  by (intro inv_structure inv_raiseM inv_modifyS settled_inv)
     (simp_all add: anything_def settled_def)

lemma post_bindM:
  assumes "inv J anything m" and "\<And>x. post_of J (f x) Q"
  shows "post_of J (bindM m f) Q"
  unfolding post_of_def
proof (intro allI impI)
  fix s
  assume j: "J s"
  obtain r s1 where run: "m s = (r, s1)" by (cases "m s")
  have step: "case m s of (Inr _, s') \<Rightarrow> J s' | (Inl e, s') \<Rightarrow> anything e s'"
    using assms(1) j by (simp add: inv_def)
  show "case bindM m f s of (Inr a, s') \<Rightarrow> Q a s' | (Inl e, s') \<Rightarrow> True"
  proof (cases r)
    case (Inl e)
    then show ?thesis using run by (simp add: bindM_def)
  next
    case (Inr x)
    then have "J s1" using step run by simp
    with assms(2)[of x] have "case f x s1 of (Inr a, s') \<Rightarrow> Q a s' | (Inl e, s') \<Rightarrow> True"
      by (simp add: post_of_def)
    then show ?thesis using Inr run by (simp add: bindM_def)
  qed
qed

lemma post_thenM: "inv J anything m \<Longrightarrow> post_of J k Q \<Longrightarrow> post_of J (thenM m k) Q"
  by (simp add: thenM_def post_bindM)

lemma post_if: "post_of J m Q \<Longrightarrow> post_of J k Q \<Longrightarrow> post_of J (if b then m else k) Q"
  by simp

lemma post_case_prod: "(\<And>a b. post_of J (f a b) Q) \<Longrightarrow> post_of J (case_prod f v) Q"
  by (cases v) simp

lemma post_case_option:
  "post_of J a Q \<Longrightarrow> (\<And>x. post_of J (b x) Q)
     \<Longrightarrow> post_of J (case v of None \<Rightarrow> a | Some x \<Rightarrow> b x) Q"
  by (cases v) simp_all

lemma post_raiseM: "post_of J (raiseM e) Q"
  by (simp add: post_of_def raiseM_def)

lemma post_of_outcome: "post_of J m Q \<Longrightarrow> J s \<Longrightarrow> outcome m s (on_return Q)"
  by (cases "m s"; cases "fst (m s)") (auto simp add: post_of_def outcome_def)

lemmas post_structure = post_bindM post_thenM post_if post_case_prod post_case_option
  post_raiseM

lemma store_flats:
  assumes "master_key_dict s0 ''flat'' = Some K" and "calib_dict s0 K \<noteq> None"
  shows "post_of (settled s0)
           (thenM (update_cache ''flat'' (Tuple [''pixelflat'', ''illumflat'']) (Tuple [a, b]))
                  (returnM (a, b)))
           (\<lambda>(p, i) s1. settled s0 s1 \<and> cache_lookup s1 K ''pixelflat'' = Some p
                          \<and> cache_lookup s1 K ''illumflat'' = Some i)"
  unfolding post_of_def
proof (intro allI impI)
  fix s :: "'a state"
  assume st: "settled s0 s"
  then have key: "master_key_dict s ''flat'' = Some K"
    using assms(1) by (simp add: settled_def)
  have "K \<in> dom (calib_dict s)" using st assms(2) by (auto simp add: settled_def)
  then obtain entry where e: "calib_dict s K = Some entry" by auto
  have run: "thenM (update_cache ''flat'' (Tuple [''pixelflat'', ''illumflat'']) (Tuple [a, b]))
                  (returnM (a, b)) s
     = (Inr (a, b),
        s\<lparr>calib_dict := (calib_dict s)(K \<mapsto> entry(''pixelflat'' \<mapsto> a, ''illumflat'' \<mapsto> b))\<rparr>)"
    by (rule outcome_eqI) (simp add: outcome_simps key e)
  show "case thenM (update_cache ''flat'' (Tuple [''pixelflat'', ''illumflat'']) (Tuple [a, b]))
                  (returnM (a, b)) s of
          (Inr x, s') \<Rightarrow> (case x of (p, i) \<Rightarrow> \<lambda>s1. settled s0 s1 \<and> cache_lookup s1 K ''pixelflat'' = Some p
                          \<and> cache_lookup s1 K ''illumflat'' = Some i) s'
        | (Inl e, s') \<Rightarrow> True"
    unfolding run using st by (auto simp add: settled_def cache_lookup_def)
qed

lemma build_flats_post:
  assumes "master_key_dict s0 ''flat'' = Some K" and "calib_dict s0 K \<noteq> None"
  shows "post_of (settled s0) (build_flats w files)
           (\<lambda>(p, i) s1. settled s0 s1 \<and> cache_lookup s1 K ''pixelflat'' = Some p
                          \<and> cache_lookup s1 K ''illumflat'' = Some i)"
  unfolding build_flats_def
  by (intro store_flats[OF assms] post_structure inv_structure inv_modifyS settled_inv
        settled_user_flat settled_slits_to_master)
     (simp_all add: settled_def)

lemma settled_refl: "settled s s"
  by (simp add: settled_def)

lemma build_flats_outcome:
  assumes "master_key_dict s ''flat'' = Some K" and "calib_dict s K \<noteq> None"
    and "\<And>p i s1. settled s s1 \<Longrightarrow> cache_lookup s1 K ''pixelflat'' = Some p
            \<Longrightarrow> cache_lookup s1 K ''illumflat'' = Some i \<Longrightarrow> Q (p, i) s1"
  shows "outcome (build_flats w files) s (on_return Q)"
proof (rule outcome_weaken[OF post_of_outcome[OF build_flats_post[OF assms(1,2)] settled_refl]])
  fix r s1
  assume "on_return (\<lambda>(p, i) s1. settled s s1 \<and> cache_lookup s1 K ''pixelflat'' = Some p
                          \<and> cache_lookup s1 K ''illumflat'' = Some i) r s1"
  then show "on_return Q r s1"
    using assms(3) by (cases r) auto
qed

end
